theory Spec2Isabelle
  imports Complex_Main "HOL-Library.Sublist"
begin

section \<open>Strings\<close>

text \<open>
  A JavaScript string is modelled as an Isabelle \<open>string\<close>, each \<open>char\<close> standing for one
  UTF-16 code unit below 256 (the Latin-1 range). Strings with code units above 255 are outside
  the model.
\<close>

text \<open>White space as \<open>String.prototype.trim\<close> sees it, among the code units below 256:
  TAB, LF, VT, FF, CR, SPACE and NO-BREAK SPACE.\<close>

definition isWhiteSpace :: "char \<Rightarrow> bool" where
  "isWhiteSpace c = (of_char c \<in> {9, 10, 11, 12, 13, 32, 160 :: nat})"

definition trim :: "string \<Rightarrow> string" where
  "trim s = rev (dropWhile isWhiteSpace (rev (dropWhile isWhiteSpace s)))"

text \<open>\<open>String.prototype.toLowerCase\<close> on code units below 256: A-Z and the accented capitals
  U+00C0..U+00DE (U+00D7, the multiplication sign, apart) move up by 32.\<close>

definition toLowerCaseChar :: "char \<Rightarrow> char" where
  "toLowerCaseChar c =
     (let n = (of_char c :: nat)
      in if (65 \<le> n \<and> n \<le> 90) \<or> (192 \<le> n \<and> n \<le> 222 \<and> n \<noteq> 215)
         then char_of (n + 32) else c)"

definition toLowerCase :: "string \<Rightarrow> string" where
  "toLowerCase s = map toLowerCaseChar s"

text \<open>\<open>s.startsWith(p)\<close> and \<open>s.includes(sub)\<close> (\<open>includesStr\<close>: \<open>includes\<close> is a keyword of Isabelle).\<close>

definition startsWith :: "string \<Rightarrow> string \<Rightarrow> bool" where
  "startsWith s p = prefix p s"

fun includesStr :: "string \<Rightarrow> string \<Rightarrow> bool" where
  "includesStr [] sub = (sub = [])"
| "includesStr (c # cs) sub = (prefix sub (c # cs) \<or> includesStr cs sub)"

section \<open>Release channels (config/types.milaidy.ts)\<close>

datatype ReleaseChannel = Stable | Beta | Nightly

text \<open>The string each member of the union type \<open>"stable" | "beta" | "nightly"\<close> is.\<close>

fun channelName :: "ReleaseChannel \<Rightarrow> string" where
  "channelName Stable = ''stable''"
| "channelName Beta = ''beta''"
| "channelName Nightly = ''nightly''"

text \<open>Modelled from the spec: the table \<open>CHANNEL_DIST_TAGS\<close> of config/types.milaidy.ts, which
  is not among the sources. The spec's data model maps the channels stable, beta, nightly 1:1 to
  the registry distribution tags latest, beta, nightly; update-checker.test.ts asserts the same
  three values.\<close>

fun CHANNEL_DIST_TAGS :: "ReleaseChannel \<Rightarrow> string" where
  "CHANNEL_DIST_TAGS Stable = ''latest''"
| "CHANNEL_DIST_TAGS Beta = ''beta''"
| "CHANNEL_DIST_TAGS Nightly = ''nightly''"

text \<open>The persisted \<open>update\<close> section of the configuration. \<open>checkIntervalSeconds\<close> is a
  whole number of seconds, \<open>lastCheckAt\<close> the ISO-8601 text that was stored.\<close>

record UpdateConfig =
  channel :: "ReleaseChannel option"
  lastCheckAt :: "string option"
  lastCheckVersion :: "string option"
  checkIntervalSeconds :: "int option"

section \<open>services/update-checker.ts: resolveChannel\<close>

text \<open>\<open>resolveChannel env updateConfig\<close>: \<open>env\<close> is the value of
  \<open>process.env.MILAIDY_UPDATE_CHANNEL\<close> (\<open>None\<close> when unset), \<open>updateConfig\<close> the argument
  (\<open>None\<close> for \<open>undefined\<close>).\<close>

definition resolveChannel :: "string option \<Rightarrow> UpdateConfig option \<Rightarrow> ReleaseChannel" where
  "resolveChannel env updateConfig =
     (let envChannel = map_option (\<lambda>e. toLowerCase (trim e)) env
      in if envChannel = Some ''stable'' then Stable
         else if envChannel = Some ''beta'' then Beta
         else if envChannel = Some ''nightly'' then Nightly
         else (case updateConfig of
                 None \<Rightarrow> Stable
               | Some uc \<Rightarrow> (case UpdateConfig.channel uc of None \<Rightarrow> Stable | Some c \<Rightarrow> c)))"

section \<open>services/update-checker.ts: the registry client\<close>

definition PACKAGE_NAME :: string where
  "PACKAGE_NAME = ''milaidy''"

definition DEFAULT_CHECK_INTERVAL_SECONDS :: int where
  "DEFAULT_CHECK_INTERVAL_SECONDS = 14400"

definition REGISTRY_TIMEOUT_MS :: nat where
  "REGISTRY_TIMEOUT_MS = 8000"

text \<open>What a JavaScript call can throw, as a value.\<close>

datatype js_error = AbortError | NetworkError | SyntaxError | TypeError | IOError string

text \<open>\<open>try { body } catch { handler }\<close>: the handler replaces whatever the body threw.\<close>

definition tryCatch :: "js_error + 'a \<Rightarrow> (js_error \<Rightarrow> js_error + 'a) \<Rightarrow> js_error + 'a" where
  "tryCatch body handler = (case body of Inl e \<Rightarrow> handler e | Inr v \<Rightarrow> Inr v)"

text \<open>
  The registry as one call of \<open>fetch\<close> sees it. \<open>settlesAfterMs\<close> is the time the awaited
  operations (\<open>fetch\<close> and, when it is read, \<open>response.json()\<close>) need, \<open>None\<close> when they never
  settle by themselves; \<open>exchange\<close> is what they give when they are left to finish. The body is
  text that is not JSON, the JSON value \<open>null\<close>, or another JSON value, of which only the
  \<open>dist-tags\<close> property counts: absent, or the string-to-string record that the declared type
  \<open>NpmDistTagsResponse\<close> gives it.
\<close>

type_synonym dist_tags = "string \<rightharpoonup> string"

datatype response_body = MalformedJson | JsonNull | JsonValue "dist_tags option"

datatype http_exchange = TransportError | Response bool response_body

record registry =
  settlesAfterMs :: "nat option"
  exchange :: http_exchange

text \<open>The \<open>try\<close> block of \<open>fetchDistTags\<close>. The timer set for \<open>REGISTRY_TIMEOUT_MS\<close> aborts the
  signal, and the pending \<open>await\<close> then rejects; an exchange that would settle at the very
  millisecond the timer fires counts as aborted.\<close>

definition fetchDistTags_try :: "registry \<Rightarrow> js_error + dist_tags option" where
  "fetchDistTags_try r =
     (case settlesAfterMs r of
        None \<Rightarrow> Inl AbortError
      | Some t \<Rightarrow>
          if REGISTRY_TIMEOUT_MS \<le> t then Inl AbortError
          else (case exchange r of
                  TransportError \<Rightarrow> Inl NetworkError
                | Response ok body \<Rightarrow>
                    if \<not> ok then Inr None
                    else (case body of
                            MalformedJson \<Rightarrow> Inl SyntaxError
                          | JsonNull \<Rightarrow> Inl TypeError
                          | JsonValue distTags \<Rightarrow> Inr distTags)))"

definition fetchDistTags :: "registry \<Rightarrow> js_error + dist_tags option" where
  "fetchDistTags r = tryCatch (fetchDistTags_try r) (\<lambda>_. Inr None)"

section \<open>services/update-checker.ts: the interval gate\<close>

text \<open>
  JavaScript numbers are IEEE 754 doubles, and \<open>(Date.now() - lastCheck) / 1_000\<close> rounds
  twice: the difference to the nearest double, and the quotient again. A finite double is
  written here as a fraction, a whole numerator over a positive denominator (a power of two).
  Time values are whole numbers of milliseconds of magnitude at most 8.64e15, and the interval
  is a whole number as the spec has it; doubles hold these exactly, so they stay \<open>int\<close>.
  The exponent range of doubles (overflow, subnormal numbers) is not modelled: the quotients
  of this file lie between 1/1000 and 1.8e16 in magnitude, or are zero.
\<close>

text \<open>The number of binary digits of \<open>n\<close>.\<close>

fun bitLength :: "nat \<Rightarrow> nat" where
  "bitLength n = (if n = 0 then 0 else Suc (bitLength (n div 2)))"

declare bitLength.simps [simp del]

text \<open>The binary exponent of the positive quotient \<open>a / q\<close>: the \<open>e\<close> with
  \<open>2^e \<le> a / q < 2^(e + 1)\<close>.\<close>

definition floorLog2 :: "nat \<Rightarrow> nat \<Rightarrow> int" where
  "floorLog2 a q =
     (if q \<le> a then int (bitLength (a div q)) - 1
      else (let j = bitLength (q div a) - 1
            in if a * 2 ^ j = q then - int j else - int j - 1))"

text \<open>The whole number nearest to \<open>n / d\<close>, the even one of two that are equally near.\<close>

definition roundHalfEven :: "nat \<Rightarrow> nat \<Rightarrow> nat" where
  "roundHalfEven n d =
     (let f = n div d; r = n mod d
      in if 2 * r < d then f
         else if d < 2 * r then f + 1
         else if even f then f else f + 1)"

text \<open>
  The double nearest to \<open>p / q\<close> (round to nearest, ties to even, 53 significant bits): with
  \<open>e\<close> the binary exponent of the quotient, the quotient is rounded to a whole multiple of
  \<open>2^(e - 52)\<close>.
\<close>

definition nearestDouble :: "int \<Rightarrow> nat \<Rightarrow> int \<times> nat" where
  "nearestDouble p q =
     (if p = 0 then (0, 1)
      else (let a = nat \<bar>p\<bar>; e = floorLog2 a q
            in if e \<le> 52
               then (sgn p * int (roundHalfEven (a * 2 ^ nat (52 - e)) q), 2 ^ nat (52 - e))
               else (sgn p * int (roundHalfEven a (q * 2 ^ nat (e - 52)) * 2 ^ nat (e - 52)), 1)))"

text \<open>\<open>(now - lastCheck) / 1_000\<close> as the program computes it.\<close>

definition elapsedSeconds :: "int \<Rightarrow> int \<Rightarrow> int \<times> nat" where
  "elapsedSeconds now lastCheck =
     (case nearestDouble (now - lastCheck) 1 of (n, d) \<Rightarrow> nearestDouble n (d * 1000))"

text \<open>\<open>x < k\<close> for a double \<open>x\<close>, given as a fraction, and a whole number \<open>k\<close>.\<close>

definition lessThanWhole :: "int \<times> nat \<Rightarrow> int \<Rightarrow> bool" where
  "lessThanWhole x k = (fst x < k * int (snd x))"

text \<open>
  \<open>shouldSkipCheck parse now updateConfig\<close>: \<open>parse s\<close> is \<open>new Date(s).getTime()\<close>, with \<open>None\<close>
  for NaN, and \<open>now\<close> is \<open>Date.now()\<close>, both in milliseconds. A comparison with NaN is false.
  The empty string is falsy, so an empty \<open>lastCheckAt\<close> leaves at the first line like an
  absent one.
\<close>

definition shouldSkipCheck :: "(string \<Rightarrow> int option) \<Rightarrow> int \<Rightarrow> UpdateConfig option \<Rightarrow> bool" where
  "shouldSkipCheck parse now updateConfig =
     (case updateConfig of
        None \<Rightarrow> False
      | Some uc \<Rightarrow>
          (case lastCheckAt uc of
             None \<Rightarrow> False
           | Some stamp \<Rightarrow>
               if stamp = [] then False
               else (let intervalSeconds =
                           (case checkIntervalSeconds uc of
                              None \<Rightarrow> DEFAULT_CHECK_INTERVAL_SECONDS | Some i \<Rightarrow> i)
                     in case parse stamp of
                          None \<Rightarrow> False
                        | Some lastCheck \<Rightarrow>
                            (let elapsed = elapsedSeconds now lastCheck
                             in lessThanWhole elapsed intervalSeconds))))"

section \<open>services/update-checker.ts: checkForUpdate\<close>

text \<open>The whole configuration: the \<open>update\<close> section and, in \<open>otherFields\<close>, everything else.\<close>

record 'r MilaidyConfig =
  update :: "UpdateConfig option"
  otherFields :: 'r

record UpdateCheckResult =
  updateAvailable :: bool
  currentVersion :: string
  latestVersion :: "string option"
  channel :: ReleaseChannel
  distTag :: string
  cached :: bool
  error :: "string option"

record CheckOptions =
  force :: "bool option"

text \<open>
  Everything one call of \<open>checkForUpdate\<close> reads from outside: the configuration that
  \<open>loadMilaidyConfig\<close> returns, what \<open>saveMilaidyConfig\<close> does with a configuration (\<open>Inl\<close>: it
  throws), the constant \<open>VERSION\<close>, the function \<open>compareSemver\<close> of version-compat.ts (not among
  the sources, so taken as it comes; its \<open>null\<close> is \<open>None\<close>), the environment variable, the clock
  and the registry.
\<close>

record 'r CheckWorld =
  loadMilaidyConfig :: "'r MilaidyConfig"
  saveMilaidyConfig :: "'r MilaidyConfig \<Rightarrow> js_error + unit"
  VERSION :: string
  compareSemver :: "string \<Rightarrow> string \<Rightarrow> int option"
  MILAIDY_UPDATE_CHANNEL :: "string option"
  dateNow :: int
  dateParse :: "string \<Rightarrow> int option"
  newDateISOString :: string
  registry :: registry

text \<open>What a call does besides returning: the number of calls of \<open>fetch\<close> and the
  configurations handed to \<open>saveMilaidyConfig\<close>, in order.\<close>

record 'r CheckOutcome =
  result :: UpdateCheckResult
  fetchCalls :: nat
  saveCalls :: "'r MilaidyConfig list"

definition optionsForce :: "CheckOptions option \<Rightarrow> bool" where
  "optionsForce options =
     (case options of None \<Rightarrow> False
      | Some opt \<Rightarrow> (case force opt of None \<Rightarrow> False | Some b \<Rightarrow> b))"

definition noVersionFound :: "string \<Rightarrow> ReleaseChannel \<Rightarrow> string" where
  \<open>noVersionFound tag ch =
     ''No version found for dist-tag "'' @ tag @ ''". The "'' @ channelName ch
       @ ''" channel may not have any published releases yet.''\<close>

definition checkForUpdate :: "CheckOptions option \<Rightarrow> 'r CheckWorld \<Rightarrow> js_error + 'r CheckOutcome" where
  "checkForUpdate options w =
     (let config = loadMilaidyConfig w;
          updateConfig = update config;
          channel = resolveChannel (MILAIDY_UPDATE_CHANNEL w) updateConfig;
          distTag = CHANNEL_DIST_TAGS channel;
          cachedVersion = (case updateConfig of None \<Rightarrow> None | Some uc \<Rightarrow> lastCheckVersion uc)
      in
      if \<not> optionsForce options \<and> shouldSkipCheck (dateParse w) (dateNow w) updateConfig then
        Inr \<lparr>result =
               \<lparr>updateAvailable =
                   (case cachedVersion of
                      None \<Rightarrow> False
                    | Some v \<Rightarrow>
                        if v = [] then False
                        else (case compareSemver w (VERSION w) v of None \<Rightarrow> 0 | Some c \<Rightarrow> c) < 0),
                currentVersion = VERSION w,
                latestVersion = cachedVersion,
                UpdateCheckResult.channel = channel, distTag = distTag, cached = True,
                UpdateCheckResult.error = None\<rparr>,
             fetchCalls = 0, saveCalls = []\<rparr>
      else
        (case fetchDistTags (registry w) of
           Inl e \<Rightarrow> Inl e
         | Inr None \<Rightarrow>
             Inr \<lparr>result =
                    \<lparr>updateAvailable = False, currentVersion = VERSION w, latestVersion = None,
                     channel = channel, distTag = distTag, cached = False,
                     error = Some ''Unable to reach the npm registry. Check your network connection.''\<rparr>,
                  fetchCalls = 1, saveCalls = []\<rparr>
         | Inr (Some distTags) \<Rightarrow>
             (case (case distTags distTag of None \<Rightarrow> None | Some v \<Rightarrow> if v = [] then None else Some v) of
                None \<Rightarrow>
                  Inr \<lparr>result =
                         \<lparr>updateAvailable = False, currentVersion = VERSION w, latestVersion = None,
                          channel = channel, distTag = distTag, cached = False,
                          error = Some (noVersionFound distTag channel)\<rparr>,
                       fetchCalls = 1, saveCalls = []\<rparr>
              | Some latest \<Rightarrow>
                  (let cmp = compareSemver w (VERSION w) latest;
                       updateAvailable = (case cmp of None \<Rightarrow> False | Some c \<Rightarrow> c < 0);
                       updatedConfig =
                         config\<lparr>update :=
                           Some ((case update config of
                                    None \<Rightarrow> \<lparr>UpdateConfig.channel = None, lastCheckAt = None,
                                             lastCheckVersion = None, checkIntervalSeconds = None\<rparr>
                                  | Some uc \<Rightarrow> uc)
                                 \<lparr>lastCheckAt := Some (newDateISOString w),
                                  lastCheckVersion := Some latest\<rparr>)\<rparr>
                   in case tryCatch (saveMilaidyConfig w updatedConfig) (\<lambda>_. Inr ()) of
                        Inl e \<Rightarrow> Inl e
                      | Inr _ \<Rightarrow>
                          Inr \<lparr>result =
                                 \<lparr>updateAvailable = updateAvailable, currentVersion = VERSION w,
                                  latestVersion = Some latest,
                                  channel = channel, distTag = distTag, cached = False, error = None\<rparr>,
                               fetchCalls = 1, saveCalls = [updatedConfig]\<rparr>))))"

section \<open>services/self-updater.ts: detecting the install method\<close>

datatype InstallMethod =
  NpmGlobal | BunGlobal | PnpmGlobal | Homebrew | Snap | Apt | Flatpak | LocalDev | Unknown

text \<open>The root package.json as \<open>isLocalDev\<close> reads it: only whether \<open>devDependencies\<close> is
  defined counts (\<open>None\<close>: the property is \<open>undefined\<close>).\<close>

datatype package_json = PackageJson (devDependencies: "(string \<times> string) list option")

text \<open>How the child process that \<open>spawn\<close> starts ends: the \<open>error\<close> event comes first, with
  the message of the error, or the \<open>close\<close> event does, with the exit code (\<open>None\<close> for
  \<open>null\<close>) after the chunks that arrived on stderr.\<close>

datatype child_outcome = SpawnError string | Closed "int option" "string list"

text \<open>
  What the self-updater reads from outside: \<open>execSync\<close> by command line (\<open>Inl\<close>: it throws,
  \<open>Inr\<close>: the standard output), \<open>fs.realpathSync\<close> by path, the reading and parsing of the
  root package.json (\<open>Inl\<close>: \<open>readFileSync\<close> or \<open>JSON.parse\<close> throws), and \<open>spawn\<close> by
  command and arguments.
\<close>

record UpdateWorld =
  execSync :: "string \<Rightarrow> js_error + string"
  realpathSync :: "string \<Rightarrow> js_error + string"
  readRootPkg :: "js_error + package_json"
  spawn :: "string \<Rightarrow> string list \<Rightarrow> child_outcome"

definition whichSync :: "UpdateWorld \<Rightarrow> string \<Rightarrow> string option" where
  "whichSync w binary =
     (case execSync w (''which '' @ binary) of Inl _ \<Rightarrow> None | Inr out \<Rightarrow> Some (trim out))"

definition isInsideNodeModules :: "string \<Rightarrow> bool" where
  "isInsideNodeModules filePath = includesStr filePath ''node_modules''"

definition isInsideHomebrew :: "string \<Rightarrow> bool" where
  "isInsideHomebrew filePath =
     (includesStr filePath ''/Cellar/'' \<or> includesStr filePath ''/homebrew/'')"

definition isInsideSnap :: "string \<Rightarrow> bool" where
  "isInsideSnap filePath = includesStr filePath ''/snap/''"

definition isInsideFlatpak :: "string \<Rightarrow> bool" where
  "isInsideFlatpak filePath =
     (includesStr filePath ''/flatpak/'' \<or> includesStr filePath ''ai.milady.Milaidy'')"

definition isLocalDev :: "UpdateWorld \<Rightarrow> bool" where
  "isLocalDev w =
     (case readRootPkg w of Inl _ \<Rightarrow> False | Inr content \<Rightarrow> devDependencies content \<noteq> None)"

text \<open>The chain of tests that \<open>detectInstallMethod\<close> runs on \<open>resolved\<close>, in its order.\<close>

definition classifyResolved :: "string \<Rightarrow> InstallMethod" where
  "classifyResolved resolved =
     (if isInsideHomebrew resolved then Homebrew
      else if isInsideSnap resolved then Snap
      else if isInsideFlatpak resolved then Flatpak
      else if startsWith resolved ''/usr/'' \<and> \<not> isInsideNodeModules resolved then Apt
      else if includesStr resolved ''/.bun/'' then BunGlobal
      else if includesStr resolved ''/pnpm/'' then PnpmGlobal
      else if isInsideNodeModules resolved then NpmGlobal
      else Unknown)"

text \<open>The path that the chain is run on: the link-free path of the binary, or the binary's own
  path when \<open>realpathSync\<close> throws.\<close>

definition resolvedPath :: "UpdateWorld \<Rightarrow> string \<Rightarrow> string" where
  "resolvedPath w milaidyBin =
     (case realpathSync w milaidyBin of Inl _ \<Rightarrow> milaidyBin | Inr p \<Rightarrow> p)"

definition detectInstallMethod :: "UpdateWorld \<Rightarrow> InstallMethod" where
  "detectInstallMethod w =
     (case whichSync w ''milaidy'' of
        None \<Rightarrow> (if isLocalDev w then LocalDev else Unknown)
      | Some milaidyBin \<Rightarrow>
          if milaidyBin = [] then (if isLocalDev w then LocalDev else Unknown)
          else classifyResolved (resolvedPath w milaidyBin))"

section \<open>services/self-updater.ts: the update command\<close>

record CommandInfo =
  command :: string
  args :: "string list"

definition buildUpdateCommand :: "InstallMethod \<Rightarrow> ReleaseChannel \<Rightarrow> CommandInfo option" where
  "buildUpdateCommand m ch =
     (let distTag = CHANNEL_DIST_TAGS ch;
          spec = (if ch = Stable then ''milaidy@latest'' else ''milaidy@'' @ distTag)
      in case m of
           NpmGlobal \<Rightarrow> Some \<lparr>command = ''npm'', args = [''install'', ''-g'', spec]\<rparr>
         | BunGlobal \<Rightarrow> Some \<lparr>command = ''bun'', args = [''install'', ''-g'', spec]\<rparr>
         | PnpmGlobal \<Rightarrow> Some \<lparr>command = ''pnpm'', args = [''add'', ''-g'', spec]\<rparr>
         | Homebrew \<Rightarrow> Some \<lparr>command = ''brew'', args = [''upgrade'', ''milaidy'']\<rparr>
         | Snap \<Rightarrow>
             (let snapChannel =
                    (if ch = Nightly then ''edge'' else if ch = Beta then ''beta'' else ''stable'')
              in Some \<lparr>command = ''sudo'',
                       args = [''snap'', ''refresh'', ''milaidy'', ''--channel='' @ snapChannel]\<rparr>)
         | Apt \<Rightarrow>
             Some \<lparr>command = ''sudo'',
                   args = [''apt-get'', ''update'', ''&&'', ''sudo'', ''apt-get'', ''install'',
                           ''--only-upgrade'', ''milaidy'']\<rparr>
         | Flatpak \<Rightarrow> Some \<lparr>command = ''flatpak'', args = [''update'', ''ai.milady.Milaidy'']\<rparr>
         | LocalDev \<Rightarrow> None
         | Unknown \<Rightarrow> Some \<lparr>command = ''npm'', args = [''install'', ''-g'', spec]\<rparr>)"

section \<open>services/self-updater.ts: running the update\<close>

text \<open>\<open>runCommand\<close> resolves once, with the first of the two events; the captured stderr is the
  chunks in the order they came.\<close>

definition runCommand :: "UpdateWorld \<Rightarrow> string \<Rightarrow> string list \<Rightarrow> int \<times> string" where
  "runCommand w cmd as =
     (case spawn w cmd as of
        SpawnError message \<Rightarrow> (1, message)
      | Closed code chunks \<Rightarrow> ((case code of None \<Rightarrow> 1 | Some c \<Rightarrow> c), concat chunks))"

definition isDigit :: "char \<Rightarrow> bool" where
  "isDigit c = (48 \<le> (of_char c :: nat) \<and> (of_char c :: nat) \<le> 57)"

text \<open>The class \<open>[\w.]\<close>: a letter of A-Z or a-z, a digit, the underscore, or the dot.\<close>

definition isWordOrDot :: "char \<Rightarrow> bool" where
  "isWordOrDot c =
     (let n = (of_char c :: nat)
      in (48 \<le> n \<and> n \<le> 57) \<or> (65 \<le> n \<and> n \<le> 90) \<or> (97 \<le> n \<and> n \<le> 122) \<or> n = 95 \<or> n = 46)"

text \<open>
  The pattern \<open>(\d+\.\d+\.\d+(?:-[\w.]+)?)\<close> tried at the start of a string. Each \<open>\d+\<close> is
  followed by something that is not a digit, so the greedy run is the only one that can match.
\<close>

definition matchVersionAt :: "string \<Rightarrow> string option" where
  "matchVersionAt s =
     (let major = takeWhile isDigit s; r1 = dropWhile isDigit s
      in if major = [] then None
         else (case r1 of
                 [] \<Rightarrow> None
               | c1 # s1 \<Rightarrow>
                   if c1 \<noteq> CHR ''.'' then None
                   else (let minor = takeWhile isDigit s1; r2 = dropWhile isDigit s1
                         in if minor = [] then None
                            else (case r2 of
                                    [] \<Rightarrow> None
                                  | c2 # s2 \<Rightarrow>
                                      if c2 \<noteq> CHR ''.'' then None
                                      else (let patch = takeWhile isDigit s2;
                                                r3 = dropWhile isDigit s2;
                                                pre = (case r3 of
                                                         [] \<Rightarrow> []
                                                       | c3 # s3 \<Rightarrow>
                                                           if c3 = CHR ''-'' \<and> takeWhile isWordOrDot s3 \<noteq> []
                                                           then c3 # takeWhile isWordOrDot s3
                                                           else [])
                                            in if patch = [] then None
                                               else Some (major @ ''.'' @ minor @ ''.'' @ patch @ pre))))))"

text \<open>\<open>output.match(...)\<close>: the leftmost position where the pattern matches.\<close>

fun matchVersion :: "string \<Rightarrow> string option" where
  "matchVersion [] = None"
| "matchVersion (c # cs) =
     (case matchVersionAt (c # cs) of Some v \<Rightarrow> Some v | None \<Rightarrow> matchVersion cs)"

definition readPostUpdateVersion :: "UpdateWorld \<Rightarrow> string option" where
  "readPostUpdateVersion w =
     (case execSync w ''milaidy --version'' of
        Inl _ \<Rightarrow> None
      | Inr out \<Rightarrow> matchVersion (trim out))"

text \<open>A whole number in a template literal: its decimal digits, after a minus sign when it is
  negative.\<close>

fun digitsOf :: "nat \<Rightarrow> string" where
  "digitsOf n =
     (if n < 10 then [char_of (48 + n)] else digitsOf (n div 10) @ [char_of (48 + n mod 10)])"

declare digitsOf.simps [simp del]

definition numberToString :: "int \<Rightarrow> string" where
  "numberToString i = (if i < 0 then CHR ''-'' # digitsOf (nat (- i)) else digitsOf (nat i))"

text \<open>\<open>xs.join(sep)\<close>.\<close>

fun join :: "string \<Rightarrow> string list \<Rightarrow> string" where
  "join sep [] = []"
| "join sep [x] = x"
| "join sep (x # y # ys) = x @ sep @ join sep (y # ys)"

text \<open>The interface \<open>UpdateResult\<close>; its field \<open>method\<close> is \<open>installMethod\<close> here, \<open>method\<close>
  being a keyword of Isabelle.\<close>

record UpdateResult =
  success :: bool
  installMethod :: InstallMethod
  command :: string
  previousVersion :: string
  newVersion :: "string option"
  error :: "string option"

text \<open>The result of \<open>performUpdate\<close> and the processes it spawned, in order.\<close>

record UpdateOutcome =
  updateResult :: UpdateResult
  spawnCalls :: "(string \<times> string list) list"

definition exitedWithCode :: "int \<Rightarrow> string" where
  "exitedWithCode exitCode = ''Update command exited with code '' @ numberToString exitCode @ ''.''"

definition performUpdate :: "UpdateWorld \<Rightarrow> string \<Rightarrow> ReleaseChannel \<Rightarrow> UpdateOutcome" where
  "performUpdate w current ch =
     (let m = detectInstallMethod w
      in case buildUpdateCommand m ch of
           None \<Rightarrow>
             \<lparr>updateResult =
                \<lparr>success = False, installMethod = m, UpdateResult.command = [],
                 previousVersion = current, newVersion = None,
                 UpdateResult.error =
                   Some (if m = LocalDev
                         then ''Cannot auto-update a local development install. Use git pull instead.''
                         else ''Unable to determine update command for this installation method.'')\<rparr>,
              spawnCalls = []\<rparr>
         | Some cmdInfo \<Rightarrow>
             (let commandString =
                    CommandInfo.command cmdInfo @ '' '' @ join '' '' (args cmdInfo);
                  (exitCode, stderr) = runCommand w (CommandInfo.command cmdInfo) (args cmdInfo)
              in if exitCode \<noteq> 0 then
                   \<lparr>updateResult =
                      \<lparr>success = False, installMethod = m, UpdateResult.command = commandString,
                       previousVersion = current, newVersion = None,
                       UpdateResult.error =
                         Some (if stderr \<noteq> [] then stderr else exitedWithCode exitCode)\<rparr>,
                    spawnCalls = [(CommandInfo.command cmdInfo, args cmdInfo)]\<rparr>
                 else
                   \<lparr>updateResult =
                      \<lparr>success = True, installMethod = m, UpdateResult.command = commandString,
                       previousVersion = current,
                       newVersion = readPostUpdateVersion w,
                       UpdateResult.error = None\<rparr>,
                    spawnCalls = [(CommandInfo.command cmdInfo, args cmdInfo)]\<rparr>))"

section \<open>services/version-compat.ts: compareSemver\<close>

text \<open>
  Modelled from the spec: the function \<open>compareSemver\<close> of services/version-compat.ts, which is
  not among the sources. The spec's contract (VersionComparator): a version is dot-separated
  numeric major.minor.patch with an optional \<open>-prerelease\<close> suffix; the result is null when
  either string is not one; major, minor and patch are compared as numbers; a version without
  suffix is greater than the same numbers with one; two suffixes are compared as dot-separated
  fields, numeric fields as numbers, non-numeric fields lexically, the shorter of two lists that
  agree on its length being lower. Where the spec is silent the model reads it so: a numeric and
  a non-numeric field are compared lexically, and a suffix that is empty after the hyphen is not
  a version. The update checker below takes its comparator as it comes and does not depend on
  this model, which serves to run it on the versions of the spec's examples.
\<close>

fun splitOn :: "char \<Rightarrow> string \<Rightarrow> string list" where
  "splitOn sep [] = [[]]"
| "splitOn sep (c # cs) =
     (if c = sep then [] # splitOn sep cs
      else (case splitOn sep cs of [] \<Rightarrow> [[c]] | f # fs \<Rightarrow> (c # f) # fs))"

definition digitValue :: "char \<Rightarrow> nat" where
  "digitValue c = of_char c - 48"

definition parseNumber :: "string \<Rightarrow> nat option" where
  "parseNumber s =
     (if s \<noteq> [] \<and> list_all (\<lambda>c. 48 \<le> (of_char c :: nat) \<and> (of_char c :: nat) \<le> 57) s
      then Some (foldl (\<lambda>n c. 10 * n + digitValue c) 0 s) else None)"

record semver =
  major :: nat
  minor :: nat
  patch :: nat
  prerelease :: "string list option"

definition parseSemver :: "string \<Rightarrow> semver option" where
  "parseSemver s =
     (let core = takeWhile (\<lambda>c. c \<noteq> CHR ''-'') s;
          suffix = dropWhile (\<lambda>c. c \<noteq> CHR ''-'') s
      in case map parseNumber (splitOn CHR ''.'' core) of
           [Some a, Some b, Some c] \<Rightarrow>
             (case suffix of
                [] \<Rightarrow> Some \<lparr>major = a, minor = b, patch = c, prerelease = None\<rparr>
              | _ # pre \<Rightarrow>
                  if pre = [] then None
                  else Some \<lparr>major = a, minor = b, patch = c,
                             prerelease = Some (splitOn CHR ''.'' pre)\<rparr>)
         | _ \<Rightarrow> None)"

definition compareNat :: "nat \<Rightarrow> nat \<Rightarrow> int" where
  "compareNat a b = (if a < b then - 1 else if b < a then 1 else 0)"

fun compareLexical :: "string \<Rightarrow> string \<Rightarrow> int" where
  "compareLexical [] [] = 0"
| "compareLexical [] (b # bs) = - 1"
| "compareLexical (a # as) [] = 1"
| "compareLexical (a # as) (b # bs) =
     (if (of_char a :: nat) < of_char b then - 1
      else if (of_char b :: nat) < of_char a then 1
      else compareLexical as bs)"

definition compareField :: "string \<Rightarrow> string \<Rightarrow> int" where
  "compareField x y =
     (case (parseNumber x, parseNumber y) of
        (Some a, Some b) \<Rightarrow> compareNat a b
      | _ \<Rightarrow> compareLexical x y)"

fun compareFields :: "string list \<Rightarrow> string list \<Rightarrow> int" where
  "compareFields [] [] = 0"
| "compareFields [] (y # ys) = - 1"
| "compareFields (x # xs) [] = 1"
| "compareFields (x # xs) (y # ys) =
     (if compareField x y \<noteq> 0 then compareField x y else compareFields xs ys)"

definition compareSemver_spec :: "string \<Rightarrow> string \<Rightarrow> int option" where
  "compareSemver_spec a b =
     (case (parseSemver a, parseSemver b) of
        (Some va, Some vb) \<Rightarrow>
          Some (if major va \<noteq> major vb then compareNat (major va) (major vb)
                else if minor va \<noteq> minor vb then compareNat (minor va) (minor vb)
                else if patch va \<noteq> patch vb then compareNat (patch va) (patch vb)
                else (case (prerelease va, prerelease vb) of
                        (None, None) \<Rightarrow> 0
                      | (None, Some _) \<Rightarrow> 1
                      | (Some _, None) \<Rightarrow> - 1
                      | (Some pa, Some pb) \<Rightarrow> compareFields pa pb))
      | _ \<Rightarrow> None)"

section \<open>Scenarios\<close>

text \<open>
  Concrete surroundings for running the update checker: the running version of the test suite
  (\<open>2.0.0-alpha.7\<close>), a clock that reads five seconds after the one date the parser knows, a
  configuration store that refuses every write, and the comparator modelled above.
\<close>

definition exampleDateParse :: "string \<Rightarrow> int option" where
  "exampleDateParse s = (if s = ''2026-02-08T12:00:00.000Z'' then Some 1770552000000 else None)"

definition exampleWorld :: "UpdateConfig option \<Rightarrow> registry \<Rightarrow> string CheckWorld" where
  "exampleWorld uc reg =
     \<lparr>loadMilaidyConfig = \<lparr>update = uc, otherFields = ''agents''\<rparr>,
      saveMilaidyConfig = (\<lambda>_. Inl (IOError ''EACCES'')),
      VERSION = ''2.0.0-alpha.7'',
      compareSemver = compareSemver_spec,
      MILAIDY_UPDATE_CHANNEL = None,
      dateNow = 1770552005000,
      dateParse = exampleDateParse,
      newDateISOString = ''2026-02-08T12:00:05.000Z'',
      registry = reg\<rparr>"

definition recentlyChecked :: UpdateConfig where
  "recentlyChecked =
     \<lparr>UpdateConfig.channel = None, lastCheckAt = Some ''2026-02-08T12:00:00.000Z'',
      lastCheckVersion = Some ''2.1.0'', checkIntervalSeconds = Some 3600\<rparr>"

definition registryWith :: "dist_tags \<Rightarrow> registry" where
  "registryWith tags = \<lparr>settlesAfterMs = Some 120, exchange = Response True (JsonValue (Some tags))\<rparr>"

definition forced :: "CheckOptions option" where
  "forced = Some \<lparr>force = Some True\<rparr>"

definition onNightly :: UpdateConfig where
  "onNightly =
     \<lparr>UpdateConfig.channel = Some Nightly, lastCheckAt = None, lastCheckVersion = None,
      checkIntervalSeconds = None\<rparr>"

definition unreadableStamp :: UpdateConfig where
  "unreadableStamp =
     \<lparr>UpdateConfig.channel = None, lastCheckAt = Some ''last tuesday'',
      lastCheckVersion = Some ''2.1.0'', checkIntervalSeconds = Some 3600\<rparr>"

definition tooSlow :: registry where
  "tooSlow = \<lparr>settlesAfterMs = Some 30000,
              exchange = Response True (JsonValue (Some [''latest'' \<mapsto> ''2.1.0'']))\<rparr>"

text \<open>
  The classification as the spec words it (InstallMethodDetector, step 3): a list of rules, each
  a test of the resolved path and the method it gives, tried from the top; the first rule
  whose test holds decides, and a path that passes no test is unknown. It is compared below
  with the chain of \<open>detectInstallMethod\<close>.
\<close>

definition priorityRules :: "((string \<Rightarrow> bool) \<times> InstallMethod) list" where
  "priorityRules =
     [(\<lambda>p. includesStr p ''/Cellar/'' \<or> includesStr p ''/homebrew/'', Homebrew),
      (\<lambda>p. includesStr p ''/snap/'', Snap),
      (\<lambda>p. includesStr p ''/flatpak/'' \<or> includesStr p ''ai.milady.Milaidy'', Flatpak),
      (\<lambda>p. startsWith p ''/usr/'' \<and> \<not> includesStr p ''node_modules'', Apt),
      (\<lambda>p. includesStr p ''/.bun/'', BunGlobal),
      (\<lambda>p. includesStr p ''/pnpm/'', PnpmGlobal),
      (\<lambda>p. includesStr p ''node_modules'', NpmGlobal)]"

definition classifyByPriority :: "string \<Rightarrow> InstallMethod" where
  "classifyByPriority p =
     (case find (\<lambda>(test, m). test p) priorityRules of Some (test, m) \<Rightarrow> m | None \<Rightarrow> Unknown)"

text \<open>
  Concrete surroundings for the self-updater: \<open>which milaidy\<close> prints the path \<open>bin\<close> and a
  line feed, \<open>bin\<close> is a link to \<open>target\<close>, there is no readable root package.json, every
  spawned process ends with \<open>outcome\<close>, and \<open>milaidy --version\<close> gives \<open>versionOutput\<close>.
\<close>

definition installedWorld :: "string \<Rightarrow> string \<Rightarrow> child_outcome \<Rightarrow> js_error + string \<Rightarrow> UpdateWorld" where
  "installedWorld bin target outcome versionOutput =
     \<lparr>execSync =
        (\<lambda>cmd. if cmd = ''which milaidy'' then Inr (bin @ [CHR 0x0A])
               else if cmd = ''milaidy --version'' then versionOutput
               else Inl (IOError ''command not found'')),
      realpathSync = (\<lambda>p. if p = bin then Inr target else Inl (IOError ''ENOENT'')),
      readRootPkg = Inl (IOError ''ENOENT''),
      spawn = (\<lambda>cmd as. outcome)\<rparr>"

definition notStarted :: child_outcome where
  "notStarted = SpawnError ''spawn was not called''"

definition noVersionCommand :: "js_error + string" where
  "noVersionCommand = Inl (IOError ''Command failed: milaidy --version'')"

definition npmUnderUsr :: "child_outcome \<Rightarrow> js_error + string \<Rightarrow> UpdateWorld" where
  "npmUnderUsr = installedWorld ''/usr/local/bin/milaidy'' ''/usr/local/lib/node_modules/milaidy/milaidy.mjs''"

definition homebrewWorld :: UpdateWorld where
  "homebrewWorld =
     installedWorld ''/opt/homebrew/bin/milaidy'' ''/opt/homebrew/lib/node_modules/milaidy/milaidy.mjs''
       notStarted noVersionCommand"

definition npmInstallLatest :: CommandInfo where
  "npmInstallLatest = \<lparr>CommandInfo.command = ''npm'', args = [''install'', ''-g'', ''milaidy@latest'']\<rparr>"

section \<open>Channel resolution\<close>

lemma normalise_BETA: "toLowerCase (trim ''  BETA  '') = ''beta''"
  by code_simp

lemma normalise_invalid: "toLowerCase (trim ''invalid'') = ''invalid''"
  by code_simp

lemma normalise_empty: "toLowerCase (trim '''') = ''''"
  by code_simp

text \<open>
  C5. For every configuration and environment: when the override, trimmed and lower-cased, is
  exactly the name of a channel, that channel is returned; otherwise the result is the
  configuration's channel when it has one and stable when it has none, the same as with no
  override at all. \<open>"  BETA  "\<close> resolves to beta; \<open>"invalid"\<close> and the empty string are
  ignored. \<open>resolveChannel\<close> is a total function: no environment value makes it fail.
\<close>

theorem resolveChannel_precedence:
  "(toLowerCase (trim e) = channelName c \<longrightarrow> resolveChannel (Some e) cfg = c)
   \<and> ((\<forall>c'. toLowerCase (trim e) \<noteq> channelName c') \<longrightarrow>
        resolveChannel (Some e) cfg = resolveChannel None cfg)
   \<and> resolveChannel None cfg =
        (case cfg of None \<Rightarrow> Stable
         | Some uc \<Rightarrow> (case UpdateConfig.channel uc of None \<Rightarrow> Stable | Some ch \<Rightarrow> ch))
   \<and> resolveChannel (Some ''  BETA  '') cfg = Beta
   \<and> resolveChannel (Some ''invalid'') cfg = resolveChannel None cfg
   \<and> resolveChannel (Some '''') cfg = resolveChannel None cfg"
proof (intro conjI impI)
  assume "toLowerCase (trim e) = channelName c"
  then show "resolveChannel (Some e) cfg = c"
    by (cases c) (simp_all add: resolveChannel_def)
next
  assume "\<forall>c'. toLowerCase (trim e) \<noteq> channelName c'"
  then have "toLowerCase (trim e) \<noteq> ''stable''" "toLowerCase (trim e) \<noteq> ''beta''"
    "toLowerCase (trim e) \<noteq> ''nightly''"
    by (metis channelName.simps(1), metis channelName.simps(2), metis channelName.simps(3))
  then show "resolveChannel (Some e) cfg = resolveChannel None cfg"
    by (simp add: resolveChannel_def)
next
  show "resolveChannel None cfg =
        (case cfg of None \<Rightarrow> Stable
         | Some uc \<Rightarrow> (case UpdateConfig.channel uc of None \<Rightarrow> Stable | Some ch \<Rightarrow> ch))"
    by (simp add: resolveChannel_def)
next
  show "resolveChannel (Some ''  BETA  '') cfg = Beta"
    by (simp add: resolveChannel_def normalise_BETA)
next
  show "resolveChannel (Some ''invalid'') cfg = resolveChannel None cfg"
    by (simp add: resolveChannel_def normalise_invalid)
next
  show "resolveChannel (Some '''') cfg = resolveChannel None cfg"
    by (simp add: resolveChannel_def normalise_empty)
qed

theorem resolveChannel_precedence_witness:
  "toLowerCase (trim ''NIGHTLY'') = channelName Nightly
   \<and> resolveChannel (Some ''NIGHTLY'')
         (Some \<lparr>UpdateConfig.channel = Some Stable, lastCheckAt = None, lastCheckVersion = None,
                checkIntervalSeconds = None\<rparr>) = Nightly
   \<and> (\<forall>c'. toLowerCase (trim ''nightyl'') \<noteq> channelName c')
   \<and> resolveChannel (Some ''nightyl'')
         (Some \<lparr>UpdateConfig.channel = Some Beta, lastCheckAt = None, lastCheckVersion = None,
                checkIntervalSeconds = None\<rparr>) = Beta"
proof -
  let ?stable = "Some \<lparr>UpdateConfig.channel = Some Stable, lastCheckAt = None,
                       lastCheckVersion = None, checkIntervalSeconds = None\<rparr>"
  let ?beta = "Some \<lparr>UpdateConfig.channel = Some Beta, lastCheckAt = None,
                     lastCheckVersion = None, checkIntervalSeconds = None\<rparr>"
  have n: "toLowerCase (trim ''NIGHTLY'') = ''nightly''"
    by code_simp
  have m: "toLowerCase (trim ''nightyl'') = ''nightyl''"
    by code_simp
  have h1: "toLowerCase (trim ''NIGHTLY'') = channelName Nightly"
    by (simp add: n)
  have h2: "\<forall>c'. toLowerCase (trim ''nightyl'') \<noteq> channelName c'"
  proof
    fix c' show "toLowerCase (trim ''nightyl'') \<noteq> channelName c'"
      by (cases c') (simp_all add: m)
  qed
  from resolveChannel_precedence [of "''NIGHTLY''" Nightly ?stable] h1
  have r1: "resolveChannel (Some ''NIGHTLY'') ?stable = Nightly"
    by blast
  from resolveChannel_precedence [of "''nightyl''" Stable ?beta] h2
  have r2: "resolveChannel (Some ''nightyl'') ?beta = Beta"
    by simp
  from h1 r1 h2 r2 show ?thesis
    by blast
qed

section \<open>The update check\<close>

lemma fetchDistTags_returns: "\<exists>v. fetchDistTags r = Inr v"
  by (auto simp: fetchDistTags_def tryCatch_def split: sum.splits)

lemma tryCatch_swallow: "tryCatch body (\<lambda>_. Inr v) = Inr (case body of Inl _ \<Rightarrow> v | Inr x \<Rightarrow> x)"
  by (simp add: tryCatch_def split: sum.splits)

lemma checkForUpdate_not_skipped:
  assumes "optionsForce options \<or> \<not> shouldSkipCheck (dateParse w) (dateNow w) (update (loadMilaidyConfig w))"
  shows "checkForUpdate options w =
     (let config = loadMilaidyConfig w;
          ch = resolveChannel (MILAIDY_UPDATE_CHANNEL w) (update config);
          tag = CHANNEL_DIST_TAGS ch
      in case fetchDistTags (registry w) of
           Inl e \<Rightarrow> Inl e
         | Inr None \<Rightarrow>
             Inr \<lparr>result =
                    \<lparr>updateAvailable = False, currentVersion = VERSION w, latestVersion = None,
                     UpdateCheckResult.channel = ch, distTag = tag, cached = False,
                     UpdateCheckResult.error =
                       Some ''Unable to reach the npm registry. Check your network connection.''\<rparr>,
                  fetchCalls = 1, saveCalls = []\<rparr>
         | Inr (Some distTags) \<Rightarrow>
             (case (case distTags tag of None \<Rightarrow> None | Some v \<Rightarrow> if v = [] then None else Some v) of
                None \<Rightarrow>
                  Inr \<lparr>result =
                         \<lparr>updateAvailable = False, currentVersion = VERSION w, latestVersion = None,
                          UpdateCheckResult.channel = ch, distTag = tag, cached = False,
                          UpdateCheckResult.error = Some (noVersionFound tag ch)\<rparr>,
                       fetchCalls = 1, saveCalls = []\<rparr>
              | Some latest \<Rightarrow>
                  Inr \<lparr>result =
                         \<lparr>updateAvailable =
                            (case compareSemver w (VERSION w) latest of None \<Rightarrow> False | Some c \<Rightarrow> c < 0),
                          currentVersion = VERSION w, latestVersion = Some latest,
                          UpdateCheckResult.channel = ch, distTag = tag, cached = False,
                          UpdateCheckResult.error = None\<rparr>,
                       fetchCalls = 1,
                       saveCalls =
                         [config\<lparr>update :=
                            Some ((case update config of
                                     None \<Rightarrow> \<lparr>UpdateConfig.channel = None, lastCheckAt = None,
                                              lastCheckVersion = None, checkIntervalSeconds = None\<rparr>
                                   | Some uc \<Rightarrow> uc)
                                  \<lparr>lastCheckAt := Some (newDateISOString w),
                                   lastCheckVersion := Some latest\<rparr>)\<rparr>]\<rparr>))"
  using assms
  by (auto simp: checkForUpdate_def Let_def tryCatch_swallow split: sum.splits option.splits)

lemma includesStr_append: "includesStr (p @ sub @ q) sub"
proof (induction p)
  case Nil
  show ?case
  proof (cases "sub @ q")
    case Nil
    then show ?thesis by simp
  next
    case (Cons a l)
    have "prefix sub (sub @ q)" by simp
    with Cons show ?thesis by simp
  qed
next
  case (Cons a p)
  then show ?case by simp
qed

lemma noVersionFound_names_channel: "includesStr (noVersionFound tag ch) (channelName ch)"
proof -
  have "noVersionFound tag ch =
          (''No version found for dist-tag '' @ [CHR 0x22] @ tag @ [CHR 0x22] @ ''. The '' @ [CHR 0x22])
            @ channelName ch
            @ ([CHR 0x22] @ '' channel may not have any published releases yet.'')"
    by (simp add: noVersionFound_def)
  then show ?thesis
    using includesStr_append by metis
qed

lemma noVersionFound_no_releases:
  "includesStr (noVersionFound tag ch) ''not have any published releases''"
proof -
  have "noVersionFound tag ch =
          (''No version found for dist-tag '' @ [CHR 0x22] @ tag @ [CHR 0x22] @ ''. The '' @ [CHR 0x22]
             @ channelName ch @ [CHR 0x22] @ '' channel may '')
            @ ''not have any published releases''
            @ '' yet.''"
    by (simp add: noVersionFound_def)
  then show ?thesis
    using includesStr_append by metis
qed

lemma noVersionFound_nightly:
  \<open>noVersionFound ''nightly'' Nightly =
     ''No version found for dist-tag "nightly". The "nightly" channel may not have any published releases yet.''\<close>
  by (simp add: noVersionFound_def)

lemma compare_alpha7_210: "compareSemver_spec ''2.0.0-alpha.7'' ''2.1.0'' = Some (- 1)"
  by code_simp

lemma compare_alpha7_220: "compareSemver_spec ''2.0.0-alpha.7'' ''2.2.0'' = Some (- 1)"
  by code_simp

lemma bitLength_le: "n < 2 ^ m \<Longrightarrow> bitLength n \<le> m"
proof (induction m arbitrary: n)
  case 0
  then show ?case by (simp add: bitLength.simps)
next
  case (Suc m)
  then have "n div 2 < 2 ^ m" by simp
  from Suc.IH [OF this] show ?case
    by (subst bitLength.simps) simp
qed

lemma bitLength_lower: "0 < n \<Longrightarrow> 2 ^ (bitLength n - 1) \<le> n"
proof (induction n rule: bitLength.induct)
  case (1 n)
  show ?case
  proof (cases "n div 2 = 0")
    case True
    then show ?thesis using "1.prems"
      by (subst bitLength.simps) (simp add: bitLength.simps)
  next
    case False
    with "1.IH" "1.prems" have ih: "2 ^ (bitLength (n div 2) - 1) \<le> n div 2" by simp
    have pos: "0 < bitLength (n div 2)" using False by (subst bitLength.simps) simp
    have "bitLength n = Suc (bitLength (n div 2))"
      using "1.prems" by (subst bitLength.simps) simp
    then have "2 ^ (bitLength n - 1) = 2 * 2 ^ (bitLength (n div 2) - 1)"
      using pos by (cases "bitLength (n div 2)") simp_all
    also have "\<dots> \<le> 2 * (n div 2)" using ih by simp
    also have "\<dots> \<le> n" by simp
    finally show ?thesis .
  qed
qed

lemma roundHalfEven_near:
  assumes "0 < d"
  shows "2 * (roundHalfEven n d * d) \<le> 2 * n + d \<and> 2 * n \<le> 2 * (roundHalfEven n d * d) + d"
proof -
  have n: "n = n div d * d + n mod d" by simp
  have m: "n mod d < d" using assms by simp
  define f where "f = n div d"
  define r where "r = n mod d"
  have n': "n = f * d + r" and m': "r < d" using n m by (simp_all add: f_def r_def)
  show ?thesis
    unfolding roundHalfEven_def Let_def f_def [symmetric] r_def [symmetric]
    using m' by (auto simp: n' algebra_simps)
qed

lemma floorLog2_upper:
  assumes "0 < q" "a < q * 2 ^ 44"
  shows "floorLog2 a q \<le> 43"
proof (cases "q \<le> a")
  case True
  have "a div q < 2 ^ 44"
    using assms by (simp add: less_mult_imp_div_less mult.commute)
  then have "bitLength (a div q) \<le> 44"
    by (rule bitLength_le)
  with True show ?thesis
    by (simp add: floorLog2_def)
next
  case False
  then show ?thesis
    by (simp add: floorLog2_def Let_def)
qed

lemma roundHalfEven_one: "roundHalfEven n (Suc 0) = n"
  by (simp add: roundHalfEven_def)

lemma nearestDouble_exact:
  assumes "p \<noteq> 0" "\<bar>p\<bar> \<le> 2 ^ 53"
  shows "\<exists>s. nearestDouble p 1 = (p * 2 ^ s, 2 ^ s)"
proof -
  define a where "a = nat \<bar>p\<bar>"
  have apos: "0 < a" and ale: "a \<le> 2 ^ 53"
    using assms by (simp_all add: a_def nat_le_iff)
  have sg: "sgn p * int a = p"
    by (simp add: a_def sgn_mult_abs)
  have e: "floorLog2 a 1 = int (bitLength a) - 1"
    using apos by (simp add: floorLog2_def)
  have "a < 2 ^ 54" using ale by simp
  then have bl: "bitLength a \<le> 54" by (rule bitLength_le)
  show ?thesis
  proof (cases "floorLog2 a 1 \<le> 52")
    case True
    define n where "n = nat (52 - floorLog2 a 1)"
    have "nearestDouble p 1 = (sgn p * int (a * 2 ^ n), 2 ^ n)"
      using True assms
      by (simp add: nearestDouble_def Let_def a_def [symmetric] n_def roundHalfEven_one)
    moreover have "sgn p * int (a * 2 ^ n) = (sgn p * int a) * 2 ^ n"
      by simp
    ultimately have "nearestDouble p 1 = (p * 2 ^ n, 2 ^ n)"
      by (simp only: sg)
    then show ?thesis ..
  next
    case False
    with e bl have e53: "floorLog2 a 1 = 53" by simp
    with e have b54: "bitLength a = 54" by simp
    from bitLength_lower [OF apos] b54 have "2 ^ 53 \<le> a" by simp
    with ale have a53: "a = 2 ^ 53" by simp
    have "nearestDouble p 1 =
            (sgn p * int (roundHalfEven a (1 * 2 ^ nat (floorLog2 a 1 - 52))
                            * 2 ^ nat (floorLog2 a 1 - 52)), 1)"
      using False assms(1) unfolding nearestDouble_def Let_def a_def [symmetric] by simp
    also have "\<dots> = (sgn p * int (2 ^ 52 * 2), 1)"
      by (simp only: e53) (simp add: a53 roundHalfEven_def)
    also have "sgn p * int (2 ^ 52 * 2) = p"
      using sg by (simp add: a53)
    finally show ?thesis
      by (intro exI [of _ 0]) simp
  qed
qed

lemma nearestDouble_of_thousandths_below:
  assumes m: "0 < m" and d: "d \<noteq> 0" "\<bar>d\<bar> \<le> 2 ^ 53" and lt: "d < 1000 * k"
  shows "lessThanWhole (nearestDouble (d * int m) (m * 1000)) k"
proof -
  define a where "a = nat \<bar>d * int m\<bar>"
  define e where "e = floorLog2 a (m * 1000)"
  define S where "S = (2 :: nat) ^ nat (52 - e)"
  define r where "r = roundHalfEven (a * S) (m * 1000)"
  have p0: "d * int m \<noteq> 0" using m d by simp
  have a_eq: "int a = \<bar>d\<bar> * int m"
    by (simp add: a_def abs_mult)
  have "\<bar>d\<bar> < 1000 * 2 ^ 44" using d(2) by simp
  then have "\<bar>d\<bar> * int m < (1000 * 2 ^ 44) * int m"
    using m by (simp add: mult_strict_right_mono)
  then have "int a < int (m * 1000 * 2 ^ 44)"
    by (simp add: a_eq mult.commute mult.left_commute)
  then have "a < m * 1000 * 2 ^ 44"
    by (simp only: of_nat_less_iff)
  with m have e43: "e \<le> 43"
    unfolding e_def by (intro floorLog2_upper) simp_all
  then have "9 \<le> nat (52 - e)" by simp
  then have "(2 :: nat) ^ 9 \<le> S"
    unfolding S_def by (intro power_increasing) simp_all
  then have "(512 :: nat) \<le> S" by simp
  then have S512: "512 \<le> int S" by linarith
  have nd: "nearestDouble (d * int m) (m * 1000) = (sgn (d * int m) * int r, S)"
    using p0 e43 by (simp add: nearestDouble_def Let_def a_def e_def S_def r_def)
  have "0 < m * 1000" using m by simp
  from roundHalfEven_near [OF this, of "a * S"]
  have near: "2 * (r * (m * 1000)) \<le> 2 * (a * S) + m * 1000"
    "2 * (a * S) \<le> 2 * (r * (m * 1000)) + m * 1000"
    by (simp_all add: r_def)
  define R M T A where "R = int r" and "M = int m" and "T = int S" and "A = int a"
  have Mpos: "0 < M" using m by (simp add: M_def)
  have up: "2 * (R * (M * 1000)) \<le> 2 * (A * T) + M * 1000"
    using near(1) unfolding R_def M_def T_def A_def
    by (metis (no_types, opaque_lifting) of_nat_add of_nat_le_iff of_nat_mult of_nat_numeral)
  have lo: "2 * (A * T) \<le> 2 * (R * (M * 1000)) + M * 1000"
    using near(2) unfolding R_def M_def T_def A_def
    by (metis (no_types, opaque_lifting) of_nat_add of_nat_le_iff of_nat_mult of_nat_numeral)
  have A: "A = \<bar>d\<bar> * M" by (simp add: A_def M_def a_eq)
  have T512: "512 \<le> T" using S512 by (simp add: T_def)
  have step: "d + 1 \<le> 1000 * k" using lt by simp
  have goal: "sgn (d * M) * R < k * T"
  proof (cases "0 < d")
    case True
    then have sg: "sgn (d * M) = 1" using Mpos by (simp add: sgn_mult)
    have Ad: "A = d * M" using True A by simp
    show ?thesis
    proof (rule ccontr)
      assume "\<not> sgn (d * M) * R < k * T"
      then have "k * T \<le> R" by (simp add: sg)
      then have "(k * T) * (M * 1000) \<le> R * (M * 1000)"
        using Mpos by (intro mult_right_mono) simp_all
      then have "2 * ((k * T) * (M * 1000)) \<le> 2 * (R * (M * 1000))"
        by linarith
      moreover have "2 * (R * (M * 1000)) \<le> 2 * (d * M * T) + M * 1000"
        using up by (simp add: Ad)
      ultimately have 1: "2 * ((k * T) * (M * 1000)) \<le> 2 * (d * M * T) + M * 1000"
        by linarith
      have "(d + 1) * (2 * T * M) \<le> (1000 * k) * (2 * T * M)"
        using step Mpos T512 by (intro mult_right_mono) simp_all
      with 1 have "2 * T * M \<le> M * 1000"
        by (simp add: algebra_simps)
      then have "2 * T \<le> 1000" using Mpos by simp
      with T512 show False by simp
    qed
  next
    case False
    with d have neg: "d < 0" by simp
    then have sg: "sgn (d * M) = - 1" using Mpos by (simp add: sgn_mult)
    have Ad: "A = - d * M" using neg A by simp
    show ?thesis
    proof (rule ccontr)
      assume "\<not> sgn (d * M) * R < k * T"
      then have "R \<le> - (k * T)" by (simp add: sg)
      then have "R * (M * 1000) \<le> (- (k * T)) * (M * 1000)"
        using Mpos by (intro mult_right_mono) simp_all
      then have "2 * (R * (M * 1000)) \<le> 2 * ((- (k * T)) * (M * 1000))"
        by linarith
      moreover have "2 * (- d * M * T) \<le> 2 * (R * (M * 1000)) + M * 1000"
        using lo by (simp add: Ad)
      ultimately have 1: "2 * (- d * M * T) \<le> 2 * ((- (k * T)) * (M * 1000)) + M * 1000"
        by linarith
      have "(d + 1) * (2 * T * M) \<le> (1000 * k) * (2 * T * M)"
        using step Mpos T512 by (intro mult_right_mono) simp_all
      with 1 have "2 * T * M \<le> M * 1000"
        by (simp add: algebra_simps)
      then have "2 * T \<le> 1000" using Mpos by simp
      with T512 show False by simp
    qed
  qed
  then show ?thesis
    by (simp add: lessThanWhole_def nd R_def M_def T_def)
qed

lemma elapsedSeconds_below:
  assumes bound: "\<bar>now - lastCheck\<bar> \<le> 2 ^ 53"
    and lt: "real_of_int (now - lastCheck) / 1000 < real_of_int k"
  shows "lessThanWhole (elapsedSeconds now lastCheck) k"
proof -
  define d where "d = now - lastCheck"
  from lt have "real_of_int d < real_of_int (1000 * k)"
    by (simp add: d_def)
  then have dk: "d < 1000 * k"
    by (simp only: of_int_less_iff)
  show ?thesis
  proof (cases "d = 0")
    case True
    with dk show ?thesis
      by (simp add: elapsedSeconds_def d_def [symmetric] nearestDouble_def lessThanWhole_def)
  next
    case False
    from nearestDouble_exact [OF False] bound obtain s
      where s: "nearestDouble d 1 = (d * 2 ^ s, 2 ^ s)"
      by (auto simp: d_def)
    have "lessThanWhole (nearestDouble (d * int (2 ^ s)) (2 ^ s * 1000)) k"
      using False bound dk by (intro nearestDouble_of_thousandths_below) (simp_all add: d_def)
    then have "lessThanWhole (nearestDouble (d * 2 ^ s) (2 ^ s * 1000)) k"
      by simp
    then show ?thesis
      unfolding elapsedSeconds_def d_def [symmetric] s by simp
  qed
qed

text \<open>
  Evaluation of the rounding. Five seconds are five seconds. At the two ends of the range of
  time values the difference of 17279999999999999 ms is not a double: it rounds up to
  1.728e16, the age is then the interval of 17280000000000 s itself and not below it, and the
  check is not skipped, although the exact age is one millisecond short of the interval.
\<close>

lemmas double_eval = lessThanWhole_def elapsedSeconds_def nearestDouble_def floorLog2_def
  roundHalfEven_def bitLength.simps Let_def

lemma elapsedSeconds_five: "elapsedSeconds 1770552005000 1770552000000 = (5 * 2 ^ 50, 2 ^ 50)"
  by (simp add: double_eval)

lemma elapsedSeconds_far_apart:
  "elapsedSeconds 8639999999999999 (- 8640000000000000) = (17280000000000 * 512, 512)"
  by (simp add: double_eval)

lemma shouldSkipCheck_far_apart:
  "\<not> shouldSkipCheck (\<lambda>s. Some (- 8640000000000000)) 8639999999999999
       (Some \<lparr>UpdateConfig.channel = None, lastCheckAt = Some ''-271821-04-20T00:00:00.000Z'',
              lastCheckVersion = Some ''2.1.0'', checkIntervalSeconds = Some 17280000000000\<rparr>)"
  by (simp add: shouldSkipCheck_def elapsedSeconds_far_apart lessThanWhole_def)

text \<open>
  C1. Let \<open>force\<close> be unset or false, and let the loaded configuration have a \<open>lastCheckAt\<close>
  (a non-empty text that parses to a time) whose age in seconds is below
  \<open>checkIntervalSeconds\<close>, or below 14400 when that field is unset: the age as the program
  computes it, in doubles, or the exact age when now and the last check are at most \<open>2^53\<close>
  milliseconds apart, where the two ages lie on the same side of the interval. Then
  \<open>checkForUpdate\<close> returns without a single fetch and without saving anything; its result
  has \<open>cached = true\<close>, and \<open>updateAvailable\<close> is true exactly when \<open>lastCheckVersion\<close> is
  present (the empty string counts as absent, being falsy) and \<open>compareSemver\<close> of the
  running version with it is a number below zero. A null comparison therefore means no update.
\<close>

theorem checkForUpdate_cached:
  assumes notForced: "\<not> optionsForce options"
    and cfg: "update (loadMilaidyConfig w) = Some uc"
    and stamp: "lastCheckAt uc = Some stamp" "stamp \<noteq> []"
    and parsed: "dateParse w stamp = Some lastCheck"
    and interval: "interval = (case checkIntervalSeconds uc of None \<Rightarrow> 14400 | Some i \<Rightarrow> i)"
    and recent: "lessThanWhole (elapsedSeconds (dateNow w) lastCheck) interval
                 \<or> (\<bar>dateNow w - lastCheck\<bar> \<le> 2 ^ 53
                      \<and> real_of_int (dateNow w - lastCheck) / 1000 < real_of_int interval)"
  shows "checkForUpdate options w =
           Inr \<lparr>result =
                  \<lparr>updateAvailable =
                      (\<exists>v c. lastCheckVersion uc = Some v \<and> v \<noteq> []
                             \<and> compareSemver w (VERSION w) v = Some c \<and> c < 0),
                   currentVersion = VERSION w,
                   latestVersion = lastCheckVersion uc,
                   UpdateCheckResult.channel = resolveChannel (MILAIDY_UPDATE_CHANNEL w) (Some uc),
                   distTag = CHANNEL_DIST_TAGS (resolveChannel (MILAIDY_UPDATE_CHANNEL w) (Some uc)),
                   cached = True, UpdateCheckResult.error = None\<rparr>,
                fetchCalls = 0, saveCalls = []\<rparr>"
proof -
  have below: "lessThanWhole (elapsedSeconds (dateNow w) lastCheck) interval"
    using recent elapsedSeconds_below by blast
  have skip: "shouldSkipCheck (dateParse w) (dateNow w) (Some uc)"
    using stamp parsed below interval
    by (simp add: shouldSkipCheck_def DEFAULT_CHECK_INTERVAL_SECONDS_def split: option.splits)
  have avail: "(case lastCheckVersion uc of
                  None \<Rightarrow> False
                | Some v \<Rightarrow> if v = [] then False
                    else (case compareSemver w (VERSION w) v of None \<Rightarrow> 0 | Some c \<Rightarrow> c) < 0)
               = (\<exists>v c. lastCheckVersion uc = Some v \<and> v \<noteq> []
                          \<and> compareSemver w (VERSION w) v = Some c \<and> c < 0)"
    by (auto split: option.splits)
  show ?thesis
    using notForced skip avail by (simp add: checkForUpdate_def cfg Let_def)
qed

theorem checkForUpdate_cached_witness:
  "\<not> optionsForce None
   \<and> update (loadMilaidyConfig (exampleWorld (Some recentlyChecked) (registryWith Map.empty)))
       = Some recentlyChecked
   \<and> lastCheckAt recentlyChecked = Some ''2026-02-08T12:00:00.000Z''
   \<and> ''2026-02-08T12:00:00.000Z'' \<noteq> []
   \<and> exampleDateParse ''2026-02-08T12:00:00.000Z'' = Some 1770552000000
   \<and> checkIntervalSeconds recentlyChecked = Some 3600
   \<and> lessThanWhole (elapsedSeconds 1770552005000 1770552000000) 3600
   \<and> \<bar>1770552005000 - 1770552000000 :: int\<bar> \<le> 2 ^ 53
   \<and> real_of_int (1770552005000 - 1770552000000) / 1000 < real_of_int 3600
   \<and> checkForUpdate None (exampleWorld (Some recentlyChecked) (registryWith Map.empty)) =
       Inr \<lparr>result =
              \<lparr>updateAvailable = True, currentVersion = ''2.0.0-alpha.7'',
               latestVersion = Some ''2.1.0'', UpdateCheckResult.channel = Stable,
               distTag = ''latest'', cached = True, UpdateCheckResult.error = None\<rparr>,
            fetchCalls = 0, saveCalls = []\<rparr>"
proof -
  let ?w = "exampleWorld (Some recentlyChecked) (registryWith Map.empty)"
  have h1: "\<not> optionsForce None"
    by (simp add: optionsForce_def)
  have h2: "update (loadMilaidyConfig ?w) = Some recentlyChecked"
    by (simp add: exampleWorld_def)
  have h3: "lastCheckAt recentlyChecked = Some ''2026-02-08T12:00:00.000Z''"
    by (simp add: recentlyChecked_def)
  have h4: "''2026-02-08T12:00:00.000Z'' \<noteq> []"
    by simp
  have h5: "dateParse ?w ''2026-02-08T12:00:00.000Z'' = Some 1770552000000"
    by (simp add: exampleWorld_def exampleDateParse_def)
  have i: "checkIntervalSeconds recentlyChecked = Some 3600"
    by (simp add: recentlyChecked_def)
  then have h6: "3600 = (case checkIntervalSeconds recentlyChecked of None \<Rightarrow> 14400 | Some i \<Rightarrow> i)"
    by simp
  have a: "lessThanWhole (elapsedSeconds 1770552005000 1770552000000) 3600"
    by (simp add: elapsedSeconds_five lessThanWhole_def)
  have b: "\<bar>1770552005000 - 1770552000000 :: int\<bar> \<le> 2 ^ 53"
    "real_of_int (1770552005000 - 1770552000000) / 1000 < real_of_int 3600"
    by simp_all
  then have h7: "lessThanWhole (elapsedSeconds (dateNow ?w) 1770552000000) 3600
                 \<or> (\<bar>dateNow ?w - 1770552000000\<bar> \<le> 2 ^ 53
                      \<and> real_of_int (dateNow ?w - 1770552000000) / 1000 < real_of_int 3600)"
    by (simp add: exampleWorld_def)
  have ch: "resolveChannel (MILAIDY_UPDATE_CHANNEL ?w) (Some recentlyChecked) = Stable"
    by (simp add: exampleWorld_def recentlyChecked_def resolveChannel_def)
  have av: "\<exists>v c. lastCheckVersion recentlyChecked = Some v \<and> v \<noteq> []
                 \<and> compareSemver ?w (VERSION ?w) v = Some c \<and> c < 0"
    by (simp add: exampleWorld_def recentlyChecked_def compare_alpha7_210)
  from checkForUpdate_cached [OF h1 h2 h3 h4 h5 h6 h7] ch av
  have "checkForUpdate None ?w =
       Inr \<lparr>result =
              \<lparr>updateAvailable = True, currentVersion = ''2.0.0-alpha.7'',
               latestVersion = Some ''2.1.0'', UpdateCheckResult.channel = Stable,
               distTag = ''latest'', cached = True, UpdateCheckResult.error = None\<rparr>,
            fetchCalls = 0, saveCalls = []\<rparr>"
    by (simp add: exampleWorld_def recentlyChecked_def)
  with h1 h2 h3 h4 h5 i a b show ?thesis
    by (simp add: exampleWorld_def exampleDateParse_def)
qed

text \<open>
  C2. Let the call reach the registry (it is forced, or the gate does not fire), and let the
  fetched dist-tags hold a version, \<open>latest\<close>, under the tag of the resolved channel. Then
  \<open>updateAvailable\<close> is true exactly when \<open>compareSemver\<close> of the running version with
  \<open>latest\<close> is a number below zero; whatever that answer is, exactly one configuration is
  handed to \<open>saveMilaidyConfig\<close>: the loaded one with \<open>lastCheckAt\<close> set to the current time
  and \<open>lastCheckVersion\<close> to \<open>latest\<close>, its other fields inside and outside the \<open>update\<close>
  section kept; and whatever \<open>saveMilaidyConfig\<close> does, throwing included, the call returns
  the same outcome.
\<close>

theorem checkForUpdate_found:
  assumes gate: "optionsForce options
                   \<or> \<not> shouldSkipCheck (dateParse w) (dateNow w) (update (loadMilaidyConfig w))"
    and fetched: "fetchDistTags (registry w) = Inr (Some tags)"
    and ch: "ch = resolveChannel (MILAIDY_UPDATE_CHANNEL w) (update (loadMilaidyConfig w))"
    and found: "tags (CHANNEL_DIST_TAGS ch) = Some latest"
    and nonempty: "latest \<noteq> []"
  shows "\<exists>saved uc'.
           checkForUpdate options w =
             Inr \<lparr>result =
                    \<lparr>updateAvailable = (\<exists>c. compareSemver w (VERSION w) latest = Some c \<and> c < 0),
                     currentVersion = VERSION w, latestVersion = Some latest,
                     UpdateCheckResult.channel = ch, distTag = CHANNEL_DIST_TAGS ch, cached = False,
                     UpdateCheckResult.error = None\<rparr>,
                  fetchCalls = 1, saveCalls = [saved]\<rparr>
           \<and> otherFields saved = otherFields (loadMilaidyConfig w)
           \<and> update saved = Some uc'
           \<and> lastCheckAt uc' = Some (newDateISOString w)
           \<and> lastCheckVersion uc' = Some latest
           \<and> UpdateConfig.channel uc' =
               (case update (loadMilaidyConfig w) of None \<Rightarrow> None | Some uc \<Rightarrow> UpdateConfig.channel uc)
           \<and> checkIntervalSeconds uc' =
               (case update (loadMilaidyConfig w) of None \<Rightarrow> None | Some uc \<Rightarrow> checkIntervalSeconds uc)
           \<and> (\<forall>save. checkForUpdate options (w\<lparr>saveMilaidyConfig := save\<rparr>) = checkForUpdate options w)"
proof -
  let ?uc' = "(case update (loadMilaidyConfig w) of
                 None \<Rightarrow> \<lparr>UpdateConfig.channel = None, lastCheckAt = None,
                          lastCheckVersion = None, checkIntervalSeconds = None\<rparr>
               | Some uc \<Rightarrow> uc)
              \<lparr>lastCheckAt := Some (newDateISOString w), lastCheckVersion := Some latest\<rparr>"
  let ?saved = "(loadMilaidyConfig w)\<lparr>update := Some ?uc'\<rparr>"
  have avail: "(case compareSemver w (VERSION w) latest of None \<Rightarrow> False | Some c \<Rightarrow> c < 0)
                 = (\<exists>c. compareSemver w (VERSION w) latest = Some c \<and> c < 0)"
    by (simp split: option.splits)
  from checkForUpdate_not_skipped [OF gate] fetched found nonempty ch
  have run: "checkForUpdate options w =
             Inr \<lparr>result =
                    \<lparr>updateAvailable = (\<exists>c. compareSemver w (VERSION w) latest = Some c \<and> c < 0),
                     currentVersion = VERSION w, latestVersion = Some latest,
                     UpdateCheckResult.channel = ch, distTag = CHANNEL_DIST_TAGS ch, cached = False,
                     UpdateCheckResult.error = None\<rparr>,
                  fetchCalls = 1, saveCalls = [?saved]\<rparr>"
    by (simp add: Let_def avail)
  have same: "checkForUpdate options (w\<lparr>saveMilaidyConfig := save\<rparr>) = checkForUpdate options w"
    for save
  proof -
    have gate': "optionsForce options
                   \<or> \<not> shouldSkipCheck (dateParse (w\<lparr>saveMilaidyConfig := save\<rparr>))
                          (dateNow (w\<lparr>saveMilaidyConfig := save\<rparr>))
                          (update (loadMilaidyConfig (w\<lparr>saveMilaidyConfig := save\<rparr>)))"
      using gate by simp
    show ?thesis
      by (simp add: checkForUpdate_not_skipped [OF gate'] checkForUpdate_not_skipped [OF gate]
          Let_def split: sum.splits option.splits)
  qed
  have fields: "otherFields ?saved = otherFields (loadMilaidyConfig w)"
    "update ?saved = Some ?uc'"
    "lastCheckAt ?uc' = Some (newDateISOString w)"
    "lastCheckVersion ?uc' = Some latest"
    "UpdateConfig.channel ?uc' =
       (case update (loadMilaidyConfig w) of None \<Rightarrow> None | Some uc \<Rightarrow> UpdateConfig.channel uc)"
    "checkIntervalSeconds ?uc' =
       (case update (loadMilaidyConfig w) of None \<Rightarrow> None | Some uc \<Rightarrow> checkIntervalSeconds uc)"
    by (simp_all split: option.splits)
  from run same fields show ?thesis
    by blast
qed

theorem checkForUpdate_found_witness:
  "optionsForce forced
   \<and> fetchDistTags (registry (exampleWorld (Some recentlyChecked) (registryWith [''latest'' \<mapsto> ''2.2.0''])))
       = Inr (Some [''latest'' \<mapsto> ''2.2.0''])
   \<and> Stable = resolveChannel None (Some recentlyChecked)
   \<and> [''latest'' \<mapsto> ''2.2.0''] (CHANNEL_DIST_TAGS Stable) = Some ''2.2.0''
   \<and> ''2.2.0'' \<noteq> []
   \<and> saveMilaidyConfig (exampleWorld (Some recentlyChecked) (registryWith [''latest'' \<mapsto> ''2.2.0'']))
        = (\<lambda>_. Inl (IOError ''EACCES''))
   \<and> checkForUpdate forced (exampleWorld (Some recentlyChecked) (registryWith [''latest'' \<mapsto> ''2.2.0''])) =
       Inr \<lparr>result =
              \<lparr>updateAvailable = True, currentVersion = ''2.0.0-alpha.7'',
               latestVersion = Some ''2.2.0'', UpdateCheckResult.channel = Stable,
               distTag = ''latest'', cached = False, UpdateCheckResult.error = None\<rparr>,
            fetchCalls = 1,
            saveCalls =
              [\<lparr>update = Some \<lparr>UpdateConfig.channel = None,
                                lastCheckAt = Some ''2026-02-08T12:00:05.000Z'',
                                lastCheckVersion = Some ''2.2.0'',
                                checkIntervalSeconds = Some 3600\<rparr>,
                otherFields = ''agents''\<rparr>]\<rparr>"
proof -
  let ?tags = "[''latest'' \<mapsto> ''2.2.0'']"
  let ?w = "exampleWorld (Some recentlyChecked) (registryWith ?tags)"
  have h1: "optionsForce forced
              \<or> \<not> shouldSkipCheck (dateParse ?w) (dateNow ?w) (update (loadMilaidyConfig ?w))"
    by (simp add: optionsForce_def forced_def)
  have h2: "fetchDistTags (registry ?w) = Inr (Some ?tags)"
    by (simp add: exampleWorld_def registryWith_def fetchDistTags_def fetchDistTags_try_def
        tryCatch_def REGISTRY_TIMEOUT_MS_def)
  have h3: "Stable = resolveChannel (MILAIDY_UPDATE_CHANNEL ?w) (update (loadMilaidyConfig ?w))"
    by (simp add: exampleWorld_def recentlyChecked_def resolveChannel_def)
  have h4: "?tags (CHANNEL_DIST_TAGS Stable) = Some ''2.2.0''"
    by simp
  have h5: "''2.2.0'' \<noteq> []"
    by simp
  from checkForUpdate_found [OF h1 h2 h3 h4 h5]
  obtain saved uc' where
    run: "checkForUpdate forced ?w =
             Inr \<lparr>result =
                    \<lparr>updateAvailable = (\<exists>c. compareSemver ?w (VERSION ?w) ''2.2.0'' = Some c \<and> c < 0),
                     currentVersion = VERSION ?w, latestVersion = Some ''2.2.0'',
                     UpdateCheckResult.channel = Stable, distTag = CHANNEL_DIST_TAGS Stable,
                     cached = False, UpdateCheckResult.error = None\<rparr>,
                  fetchCalls = 1, saveCalls = [saved]\<rparr>"
    and saved: "otherFields saved = otherFields (loadMilaidyConfig ?w)" "update saved = Some uc'"
    and uc': "lastCheckAt uc' = Some (newDateISOString ?w)" "lastCheckVersion uc' = Some ''2.2.0''"
      "UpdateConfig.channel uc' =
         (case update (loadMilaidyConfig ?w) of None \<Rightarrow> None | Some uc \<Rightarrow> UpdateConfig.channel uc)"
      "checkIntervalSeconds uc' =
         (case update (loadMilaidyConfig ?w) of None \<Rightarrow> None | Some uc \<Rightarrow> checkIntervalSeconds uc)"
    by blast
  have uc'_eq: "uc' = \<lparr>UpdateConfig.channel = None,
                       lastCheckAt = Some ''2026-02-08T12:00:05.000Z'',
                       lastCheckVersion = Some ''2.2.0'',
                       checkIntervalSeconds = Some 3600\<rparr>"
    using uc' by (cases uc') (simp add: exampleWorld_def recentlyChecked_def)
  have saved_eq: "saved = \<lparr>update = Some uc', otherFields = ''agents''\<rparr>"
    using saved by (cases saved) (simp add: exampleWorld_def)
  have av: "\<exists>c. compareSemver ?w (VERSION ?w) ''2.2.0'' = Some c \<and> c < 0"
    by (simp add: exampleWorld_def compare_alpha7_220)
  have "checkForUpdate forced ?w =
       Inr \<lparr>result =
              \<lparr>updateAvailable = True, currentVersion = ''2.0.0-alpha.7'',
               latestVersion = Some ''2.2.0'', UpdateCheckResult.channel = Stable,
               distTag = ''latest'', cached = False, UpdateCheckResult.error = None\<rparr>,
            fetchCalls = 1,
            saveCalls =
              [\<lparr>update = Some \<lparr>UpdateConfig.channel = None,
                                lastCheckAt = Some ''2026-02-08T12:00:05.000Z'',
                                lastCheckVersion = Some ''2.2.0'',
                                checkIntervalSeconds = Some 3600\<rparr>,
                otherFields = ''agents''\<rparr>]\<rparr>"
    using run av by (simp add: saved_eq uc'_eq exampleWorld_def)
  moreover have "optionsForce forced"
    by (simp add: optionsForce_def forced_def)
  moreover have "saveMilaidyConfig ?w = (\<lambda>_. Inl (IOError ''EACCES''))"
    by (simp add: exampleWorld_def)
  moreover have "Stable = resolveChannel None (Some recentlyChecked)"
    using h3 by (simp add: exampleWorld_def)
  ultimately show ?thesis
    using h2 h4 h5 by blast
qed

text \<open>
  C3. Let the call reach the registry, and let the fetch fail: it has not settled when the
  timer fires after 8000 milliseconds, or the transport fails, or the response is not ok, or
  its body is not JSON. Then \<open>fetchDistTags\<close> returns null (it returns: nothing is thrown),
  and \<open>checkForUpdate\<close> returns \<open>updateAvailable = false\<close>, \<open>latestVersion = null\<close>,
  \<open>cached = false\<close> and the error text about not reaching the npm registry, after one fetch
  and without handing anything to \<open>saveMilaidyConfig\<close>.
\<close>

theorem checkForUpdate_registry_failure:
  assumes gate: "optionsForce options
                   \<or> \<not> shouldSkipCheck (dateParse w) (dateNow w) (update (loadMilaidyConfig w))"
    and failed: "settlesAfterMs (registry w) = None
                 \<or> (\<exists>t. settlesAfterMs (registry w) = Some t \<and> 8000 \<le> t)
                 \<or> exchange (registry w) = TransportError
                 \<or> (\<exists>body. exchange (registry w) = Response False body)
                 \<or> exchange (registry w) = Response True MalformedJson"
  shows "fetchDistTags (registry w) = Inr None
         \<and> checkForUpdate options w =
             Inr \<lparr>result =
                    \<lparr>updateAvailable = False, currentVersion = VERSION w, latestVersion = None,
                     UpdateCheckResult.channel =
                       resolveChannel (MILAIDY_UPDATE_CHANNEL w) (update (loadMilaidyConfig w)),
                     distTag =
                       CHANNEL_DIST_TAGS
                         (resolveChannel (MILAIDY_UPDATE_CHANNEL w) (update (loadMilaidyConfig w))),
                     cached = False,
                     UpdateCheckResult.error =
                       Some ''Unable to reach the npm registry. Check your network connection.''\<rparr>,
                  fetchCalls = 1, saveCalls = []\<rparr>"
proof -
  have none: "fetchDistTags (registry w) = Inr None"
    using failed
    by (auto simp: fetchDistTags_def fetchDistTags_try_def tryCatch_def REGISTRY_TIMEOUT_MS_def
        split: option.splits http_exchange.splits response_body.splits)
  from checkForUpdate_not_skipped [OF gate] none show ?thesis
    by (simp add: Let_def)
qed

theorem checkForUpdate_registry_failure_witness:
  "\<not> shouldSkipCheck exampleDateParse 1770552005000 None
   \<and> settlesAfterMs tooSlow = Some 30000 \<and> (8000 :: nat) \<le> 30000
   \<and> fetchDistTags tooSlow = Inr None
   \<and> checkForUpdate None (exampleWorld None tooSlow) =
       Inr \<lparr>result =
              \<lparr>updateAvailable = False, currentVersion = ''2.0.0-alpha.7'', latestVersion = None,
               UpdateCheckResult.channel = Stable, distTag = ''latest'', cached = False,
               UpdateCheckResult.error =
                 Some ''Unable to reach the npm registry. Check your network connection.''\<rparr>,
            fetchCalls = 1, saveCalls = []\<rparr>"
proof -
  let ?w = "exampleWorld None tooSlow"
  have skip: "\<not> shouldSkipCheck exampleDateParse 1770552005000 None"
    by (simp add: shouldSkipCheck_def)
  then have h1: "optionsForce None
              \<or> \<not> shouldSkipCheck (dateParse ?w) (dateNow ?w) (update (loadMilaidyConfig ?w))"
    by (simp add: exampleWorld_def)
  have slow: "settlesAfterMs tooSlow = Some 30000 \<and> (8000 :: nat) \<le> 30000"
    by (simp add: tooSlow_def)
  then have h2: "settlesAfterMs (registry ?w) = None
                 \<or> (\<exists>t. settlesAfterMs (registry ?w) = Some t \<and> 8000 \<le> t)
                 \<or> exchange (registry ?w) = TransportError
                 \<or> (\<exists>body. exchange (registry ?w) = Response False body)
                 \<or> exchange (registry ?w) = Response True MalformedJson"
    by (simp add: exampleWorld_def)
  have ch: "resolveChannel (MILAIDY_UPDATE_CHANNEL ?w) (update (loadMilaidyConfig ?w)) = Stable"
    by (simp add: exampleWorld_def resolveChannel_def)
  from checkForUpdate_registry_failure [OF h1 h2] ch
  have "fetchDistTags tooSlow = Inr None
        \<and> checkForUpdate None ?w =
       Inr \<lparr>result =
              \<lparr>updateAvailable = False, currentVersion = ''2.0.0-alpha.7'', latestVersion = None,
               UpdateCheckResult.channel = Stable, distTag = ''latest'', cached = False,
               UpdateCheckResult.error =
                 Some ''Unable to reach the npm registry. Check your network connection.''\<rparr>,
            fetchCalls = 1, saveCalls = []\<rparr>"
    by (simp add: exampleWorld_def)
  with skip slow show ?thesis
    by blast
qed

text \<open>
  C4. Let the call reach the registry, and let the fetched dist-tags have no entry under the
  tag of the resolved channel. Then the result has \<open>updateAvailable = false\<close> and
  \<open>latestVersion = null\<close>, its error text contains the name of the channel and the words
  \<open>not have any published releases\<close>, and nothing is handed to \<open>saveMilaidyConfig\<close>.
\<close>

theorem checkForUpdate_tag_missing:
  assumes gate: "optionsForce options
                   \<or> \<not> shouldSkipCheck (dateParse w) (dateNow w) (update (loadMilaidyConfig w))"
    and fetched: "fetchDistTags (registry w) = Inr (Some tags)"
    and ch: "ch = resolveChannel (MILAIDY_UPDATE_CHANNEL w) (update (loadMilaidyConfig w))"
    and missing: "tags (CHANNEL_DIST_TAGS ch) = None"
  shows "checkForUpdate options w =
           Inr \<lparr>result =
                  \<lparr>updateAvailable = False, currentVersion = VERSION w, latestVersion = None,
                   UpdateCheckResult.channel = ch, distTag = CHANNEL_DIST_TAGS ch, cached = False,
                   UpdateCheckResult.error = Some (noVersionFound (CHANNEL_DIST_TAGS ch) ch)\<rparr>,
                fetchCalls = 1, saveCalls = []\<rparr>
         \<and> includesStr (noVersionFound (CHANNEL_DIST_TAGS ch) ch) (channelName ch)
         \<and> includesStr (noVersionFound (CHANNEL_DIST_TAGS ch) ch) ''not have any published releases''"
proof -
  from checkForUpdate_not_skipped [OF gate] fetched missing ch
  have "checkForUpdate options w =
           Inr \<lparr>result =
                  \<lparr>updateAvailable = False, currentVersion = VERSION w, latestVersion = None,
                   UpdateCheckResult.channel = ch, distTag = CHANNEL_DIST_TAGS ch, cached = False,
                   UpdateCheckResult.error = Some (noVersionFound (CHANNEL_DIST_TAGS ch) ch)\<rparr>,
                fetchCalls = 1, saveCalls = []\<rparr>"
    by (simp add: Let_def)
  then show ?thesis
    using noVersionFound_names_channel noVersionFound_no_releases by blast
qed

theorem checkForUpdate_tag_missing_witness:
  \<open>optionsForce forced
   \<and> fetchDistTags (registryWith [''latest'' \<mapsto> ''2.0.0'']) = Inr (Some [''latest'' \<mapsto> ''2.0.0''])
   \<and> Nightly = resolveChannel None (Some onNightly)
   \<and> [''latest'' \<mapsto> ''2.0.0''] (CHANNEL_DIST_TAGS Nightly) = None
   \<and> checkForUpdate forced (exampleWorld (Some onNightly) (registryWith [''latest'' \<mapsto> ''2.0.0''])) =
       Inr \<lparr>result =
              \<lparr>updateAvailable = False, currentVersion = ''2.0.0-alpha.7'', latestVersion = None,
               UpdateCheckResult.channel = Nightly, distTag = ''nightly'', cached = False,
               UpdateCheckResult.error =
                 Some ''No version found for dist-tag "nightly". The "nightly" channel may not have any published releases yet.''\<rparr>,
            fetchCalls = 1, saveCalls = []\<rparr>
   \<and> includesStr
        ''No version found for dist-tag "nightly". The "nightly" channel may not have any published releases yet.''
        ''nightly''
   \<and> includesStr
        ''No version found for dist-tag "nightly". The "nightly" channel may not have any published releases yet.''
        ''not have any published releases''\<close>
proof -
  let ?tags = "[''latest'' \<mapsto> ''2.0.0'']"
  let ?w = "exampleWorld (Some onNightly) (registryWith ?tags)"
  have f: "optionsForce forced"
    by (simp add: optionsForce_def forced_def)
  then have h1: "optionsForce forced
              \<or> \<not> shouldSkipCheck (dateParse ?w) (dateNow ?w) (update (loadMilaidyConfig ?w))"
    by simp
  have fetched: "fetchDistTags (registryWith ?tags) = Inr (Some ?tags)"
    by (simp add: registryWith_def fetchDistTags_def fetchDistTags_try_def
        tryCatch_def REGISTRY_TIMEOUT_MS_def)
  then have h2: "fetchDistTags (registry ?w) = Inr (Some ?tags)"
    by (simp add: exampleWorld_def)
  have ch: "Nightly = resolveChannel None (Some onNightly)"
    by (simp add: onNightly_def resolveChannel_def)
  then have h3: "Nightly = resolveChannel (MILAIDY_UPDATE_CHANNEL ?w) (update (loadMilaidyConfig ?w))"
    by (simp add: exampleWorld_def)
  have h4: "?tags (CHANNEL_DIST_TAGS Nightly) = None"
    by simp
  from checkForUpdate_tag_missing [OF h1 h2 h3 h4]
  show ?thesis
    using f fetched ch h4 by (simp add: noVersionFound_nightly exampleWorld_def)
qed

text \<open>
  C10. Let the loaded configuration have a \<open>lastCheckAt\<close> that does not parse as a time
  (\<open>getTime()\<close> is NaN). Then the gate does not fire, whatever \<open>checkIntervalSeconds\<close> is,
  and \<open>checkForUpdate\<close>, forced or not, returns a result that is not cached after one fetch:
  it neither raises nor serves the cached version.
\<close>

theorem checkForUpdate_unparsed_lastCheckAt:
  assumes cfg: "update (loadMilaidyConfig w) = Some uc"
    and stamp: "lastCheckAt uc = Some stamp"
    and nan: "dateParse w stamp = None"
  shows "\<not> shouldSkipCheck (dateParse w) (dateNow w) (Some uc)
         \<and> (\<exists>out. checkForUpdate options w = Inr out \<and> fetchCalls out = 1
                    \<and> \<not> cached (result out))"
proof
  show noSkip: "\<not> shouldSkipCheck (dateParse w) (dateNow w) (Some uc)"
    using stamp nan by (simp add: shouldSkipCheck_def)
  obtain v where v: "fetchDistTags (registry w) = Inr v"
    using fetchDistTags_returns by blast
  from noSkip cfg
  have "optionsForce options
          \<or> \<not> shouldSkipCheck (dateParse w) (dateNow w) (update (loadMilaidyConfig w))"
    by simp
  from checkForUpdate_not_skipped [OF this] v
  show "\<exists>out. checkForUpdate options w = Inr out \<and> fetchCalls out = 1 \<and> \<not> cached (result out)"
    by (auto simp: Let_def split: option.splits)
qed

theorem checkForUpdate_unparsed_lastCheckAt_witness:
  "update (loadMilaidyConfig (exampleWorld (Some unreadableStamp) tooSlow)) = Some unreadableStamp
   \<and> lastCheckAt unreadableStamp = Some ''last tuesday''
   \<and> exampleDateParse ''last tuesday'' = None
   \<and> \<not> shouldSkipCheck exampleDateParse 1770552005000 (Some unreadableStamp)
   \<and> (\<exists>out. checkForUpdate None (exampleWorld (Some unreadableStamp) tooSlow) = Inr out
              \<and> fetchCalls out = 1 \<and> \<not> cached (result out))"
proof -
  let ?w = "exampleWorld (Some unreadableStamp) tooSlow"
  have h1: "update (loadMilaidyConfig ?w) = Some unreadableStamp"
    by (simp add: exampleWorld_def)
  have h2: "lastCheckAt unreadableStamp = Some ''last tuesday''"
    by (simp add: unreadableStamp_def)
  have nan: "exampleDateParse ''last tuesday'' = None"
    by (simp add: exampleDateParse_def)
  then have h3: "dateParse ?w ''last tuesday'' = None"
    by (simp add: exampleWorld_def)
  from checkForUpdate_unparsed_lastCheckAt [OF h1 h2 h3, of None]
  have "\<not> shouldSkipCheck exampleDateParse 1770552005000 (Some unreadableStamp)
        \<and> (\<exists>out. checkForUpdate None ?w = Inr out \<and> fetchCalls out = 1 \<and> \<not> cached (result out))"
    by (simp add: exampleWorld_def)
  with h1 h2 nan show ?thesis
    by blast
qed

section \<open>The install method\<close>

lemma classifyResolved_priority: "classifyResolved p = classifyByPriority p"
  by (simp add: classifyResolved_def classifyByPriority_def priorityRules_def
      isInsideHomebrew_def isInsideSnap_def isInsideFlatpak_def isInsideNodeModules_def)

lemma detectInstallMethod_found:
  assumes "whichSync w ''milaidy'' = Some bin" "bin \<noteq> []"
  shows "detectInstallMethod w = classifyResolved (resolvedPath w bin)"
  using assms by (simp add: detectInstallMethod_def)

lemma trim_which_output: "trim (''/usr/local/bin/milaidy'' @ [CHR 0x0A]) = ''/usr/local/bin/milaidy''"
  by code_simp

lemma trim_which_homebrew: "trim (''/opt/homebrew/bin/milaidy'' @ [CHR 0x0A]) = ''/opt/homebrew/bin/milaidy''"
  by code_simp

lemma whichSync_npmUnderUsr: "whichSync (npmUnderUsr oc v) ''milaidy'' = Some ''/usr/local/bin/milaidy''"
  using trim_which_output by (simp add: whichSync_def npmUnderUsr_def installedWorld_def)

lemma resolvedPath_npmUnderUsr:
  "resolvedPath (npmUnderUsr oc v) ''/usr/local/bin/milaidy'' = ''/usr/local/lib/node_modules/milaidy/milaidy.mjs''"
  by (simp add: resolvedPath_def npmUnderUsr_def installedWorld_def)

lemma npm_path_facts:
  "startsWith ''/usr/local/lib/node_modules/milaidy/milaidy.mjs'' ''/usr/''"
  "includesStr ''/usr/local/lib/node_modules/milaidy/milaidy.mjs'' ''node_modules''"
  "\<not> includesStr ''/usr/local/lib/node_modules/milaidy/milaidy.mjs'' ''/Cellar/''"
  "\<not> includesStr ''/usr/local/lib/node_modules/milaidy/milaidy.mjs'' ''/homebrew/''"
  "\<not> includesStr ''/usr/local/lib/node_modules/milaidy/milaidy.mjs'' ''/snap/''"
  "\<not> includesStr ''/usr/local/lib/node_modules/milaidy/milaidy.mjs'' ''/flatpak/''"
  "\<not> includesStr ''/usr/local/lib/node_modules/milaidy/milaidy.mjs'' ''ai.milady.Milaidy''"
  "\<not> includesStr ''/usr/local/lib/node_modules/milaidy/milaidy.mjs'' ''/.bun/''"
  "\<not> includesStr ''/usr/local/lib/node_modules/milaidy/milaidy.mjs'' ''/pnpm/''"
  by (simp_all add: startsWith_def)

lemma homebrew_path_facts:
  "includesStr ''/opt/homebrew/lib/node_modules/milaidy/milaidy.mjs'' ''node_modules''"
  "includesStr ''/opt/homebrew/lib/node_modules/milaidy/milaidy.mjs'' ''/homebrew/''"
  by simp_all

lemma detect_npmUnderUsr: "detectInstallMethod (npmUnderUsr oc v) = NpmGlobal"
proof -
  have "classifyResolved ''/usr/local/lib/node_modules/milaidy/milaidy.mjs'' = NpmGlobal"
    by (simp add: classifyResolved_def isInsideHomebrew_def isInsideSnap_def isInsideFlatpak_def
        isInsideNodeModules_def startsWith_def)
  then show ?thesis
    using detectInstallMethod_found [OF whichSync_npmUnderUsr, of oc v]
    by (simp add: resolvedPath_npmUnderUsr)
qed

text \<open>
  C6. When \<open>which\<close> finds the binary, \<open>detectInstallMethod\<close> classifies the resolved path by
  the first rule that matches, in the order homebrew, snap, flatpak, apt, bun-global,
  pnpm-global, npm-global, and unknown when none does. So a path with a Homebrew marker that
  is also inside \<open>node_modules\<close> is homebrew; and a path that starts with \<open>/usr/\<close> and is
  inside \<open>node_modules\<close> is passed over by the rule for apt and taken by the rule for
  npm-global, the rules before it (homebrew, snap, flatpak, bun-global, pnpm-global) having
  their turn first as the order says.
\<close>

theorem detectInstallMethod_priority:
  assumes found: "whichSync w ''milaidy'' = Some bin" "bin \<noteq> []"
    and p: "p = resolvedPath w bin"
  shows "detectInstallMethod w = classifyByPriority p
         \<and> (includesStr p ''node_modules''
              \<and> (includesStr p ''/Cellar/'' \<or> includesStr p ''/homebrew/'')
             \<longrightarrow> detectInstallMethod w = Homebrew)
         \<and> (startsWith p ''/usr/'' \<and> includesStr p ''node_modules''
             \<longrightarrow> detectInstallMethod w \<noteq> Apt
                 \<and> (detectInstallMethod w = NpmGlobal
                      \<or> includesStr p ''/Cellar/'' \<or> includesStr p ''/homebrew/''
                      \<or> includesStr p ''/snap/''
                      \<or> includesStr p ''/flatpak/'' \<or> includesStr p ''ai.milady.Milaidy''
                      \<or> includesStr p ''/.bun/'' \<or> includesStr p ''/pnpm/''))"
proof -
  have d: "detectInstallMethod w = classifyResolved p"
    using detectInstallMethod_found [OF found] p by simp
  show ?thesis
    unfolding d classifyResolved_priority [symmetric]
    by (simp add: classifyResolved_def isInsideHomebrew_def isInsideSnap_def isInsideFlatpak_def
        isInsideNodeModules_def)
qed

theorem detectInstallMethod_priority_witness:
  "whichSync (npmUnderUsr notStarted noVersionCommand) ''milaidy'' = Some ''/usr/local/bin/milaidy''
   \<and> ''/usr/local/bin/milaidy'' \<noteq> []
   \<and> ''/usr/local/lib/node_modules/milaidy/milaidy.mjs''
        = resolvedPath (npmUnderUsr notStarted noVersionCommand) ''/usr/local/bin/milaidy''
   \<and> startsWith ''/usr/local/lib/node_modules/milaidy/milaidy.mjs'' ''/usr/''
   \<and> includesStr ''/usr/local/lib/node_modules/milaidy/milaidy.mjs'' ''node_modules''
   \<and> detectInstallMethod (npmUnderUsr notStarted noVersionCommand) = NpmGlobal
   \<and> whichSync homebrewWorld ''milaidy'' = Some ''/opt/homebrew/bin/milaidy''
   \<and> ''/opt/homebrew/bin/milaidy'' \<noteq> []
   \<and> ''/opt/homebrew/lib/node_modules/milaidy/milaidy.mjs''
        = resolvedPath homebrewWorld ''/opt/homebrew/bin/milaidy''
   \<and> includesStr ''/opt/homebrew/lib/node_modules/milaidy/milaidy.mjs'' ''node_modules''
   \<and> includesStr ''/opt/homebrew/lib/node_modules/milaidy/milaidy.mjs'' ''/homebrew/''
   \<and> detectInstallMethod homebrewWorld = Homebrew"
proof -
  let ?n = "npmUnderUsr notStarted noVersionCommand"
  have n1: "whichSync ?n ''milaidy'' = Some ''/usr/local/bin/milaidy''"
    by (rule whichSync_npmUnderUsr)
  have n2: "''/usr/local/bin/milaidy'' \<noteq> []"
    by simp
  have n3: "''/usr/local/lib/node_modules/milaidy/milaidy.mjs''
              = resolvedPath ?n ''/usr/local/bin/milaidy''"
    by (simp add: resolvedPath_npmUnderUsr)
  from detectInstallMethod_priority [OF n1 n2 n3] npm_path_facts
  have n: "detectInstallMethod ?n = NpmGlobal"
    by blast
  have b1: "whichSync homebrewWorld ''milaidy'' = Some ''/opt/homebrew/bin/milaidy''"
    using trim_which_homebrew by (simp add: whichSync_def homebrewWorld_def installedWorld_def)
  have b2: "''/opt/homebrew/bin/milaidy'' \<noteq> []"
    by simp
  have b3: "''/opt/homebrew/lib/node_modules/milaidy/milaidy.mjs''
              = resolvedPath homebrewWorld ''/opt/homebrew/bin/milaidy''"
    by (simp add: resolvedPath_def homebrewWorld_def installedWorld_def)
  from detectInstallMethod_priority [OF b1 b2 b3] homebrew_path_facts
  have b: "detectInstallMethod homebrewWorld = Homebrew"
    by blast
  from n1 n2 n3 npm_path_facts(1,2) n b1 b2 b3 homebrew_path_facts b show ?thesis
    by blast
qed

section \<open>The update command\<close>

text \<open>
  C7. \<open>buildUpdateCommand\<close> gives, for every channel: for npm, bun and pnpm the global
  install of \<open>milaidy@latest\<close> on stable and of \<open>milaidy@\<close> followed by the channel's
  distribution tag on beta and nightly; for snap a refresh on the snap channel stable, beta
  or edge (edge, not the registry tag, for nightly); for homebrew, apt and flatpak one fixed
  command each; nothing for local-dev; and for unknown what it gives for npm-global.
\<close>

theorem buildUpdateCommand_table:
  "map (buildUpdateCommand NpmGlobal) [Stable, Beta, Nightly] =
     [Some \<lparr>CommandInfo.command = ''npm'', args = [''install'', ''-g'', ''milaidy@latest'']\<rparr>,
      Some \<lparr>CommandInfo.command = ''npm'', args = [''install'', ''-g'', ''milaidy@beta'']\<rparr>,
      Some \<lparr>CommandInfo.command = ''npm'', args = [''install'', ''-g'', ''milaidy@nightly'']\<rparr>]
   \<and> map (buildUpdateCommand BunGlobal) [Stable, Beta, Nightly] =
     [Some \<lparr>CommandInfo.command = ''bun'', args = [''install'', ''-g'', ''milaidy@latest'']\<rparr>,
      Some \<lparr>CommandInfo.command = ''bun'', args = [''install'', ''-g'', ''milaidy@beta'']\<rparr>,
      Some \<lparr>CommandInfo.command = ''bun'', args = [''install'', ''-g'', ''milaidy@nightly'']\<rparr>]
   \<and> map (buildUpdateCommand PnpmGlobal) [Stable, Beta, Nightly] =
     [Some \<lparr>CommandInfo.command = ''pnpm'', args = [''add'', ''-g'', ''milaidy@latest'']\<rparr>,
      Some \<lparr>CommandInfo.command = ''pnpm'', args = [''add'', ''-g'', ''milaidy@beta'']\<rparr>,
      Some \<lparr>CommandInfo.command = ''pnpm'', args = [''add'', ''-g'', ''milaidy@nightly'']\<rparr>]
   \<and> map (\<lambda>c. ''milaidy@'' @ CHANNEL_DIST_TAGS c) [Beta, Nightly] = [''milaidy@beta'', ''milaidy@nightly'']
   \<and> map (buildUpdateCommand Snap) [Stable, Beta, Nightly] =
     [Some \<lparr>CommandInfo.command = ''sudo'',
            args = [''snap'', ''refresh'', ''milaidy'', ''--channel=stable'']\<rparr>,
      Some \<lparr>CommandInfo.command = ''sudo'',
            args = [''snap'', ''refresh'', ''milaidy'', ''--channel=beta'']\<rparr>,
      Some \<lparr>CommandInfo.command = ''sudo'',
            args = [''snap'', ''refresh'', ''milaidy'', ''--channel=edge'']\<rparr>]
   \<and> buildUpdateCommand Homebrew ch =
       Some \<lparr>CommandInfo.command = ''brew'', args = [''upgrade'', ''milaidy'']\<rparr>
   \<and> buildUpdateCommand Apt ch =
       Some \<lparr>CommandInfo.command = ''sudo'',
             args = [''apt-get'', ''update'', ''&&'', ''sudo'', ''apt-get'', ''install'',
                     ''--only-upgrade'', ''milaidy'']\<rparr>
   \<and> buildUpdateCommand Flatpak ch =
       Some \<lparr>CommandInfo.command = ''flatpak'', args = [''update'', ''ai.milady.Milaidy'']\<rparr>
   \<and> buildUpdateCommand LocalDev ch = None
   \<and> buildUpdateCommand Unknown ch = buildUpdateCommand NpmGlobal ch"
  by (simp add: buildUpdateCommand_def)

section \<open>Running the update\<close>

lemma performUpdate_spawned:
  assumes "buildUpdateCommand (detectInstallMethod w) ch = Some cmdInfo"
  shows "performUpdate w current ch =
     (let commandString = CommandInfo.command cmdInfo @ '' '' @ join '' '' (args cmdInfo);
          run = runCommand w (CommandInfo.command cmdInfo) (args cmdInfo)
      in \<lparr>updateResult =
            (if fst run \<noteq> 0 then
               \<lparr>success = False, installMethod = detectInstallMethod w,
                UpdateResult.command = commandString, previousVersion = current,
                newVersion = None,
                UpdateResult.error = Some (if snd run \<noteq> [] then snd run else exitedWithCode (fst run))\<rparr>
             else
               \<lparr>success = True, installMethod = detectInstallMethod w,
                UpdateResult.command = commandString, previousVersion = current,
                newVersion = readPostUpdateVersion w, UpdateResult.error = None\<rparr>),
          spawnCalls = [(CommandInfo.command cmdInfo, args cmdInfo)]\<rparr>)"
  using assms by (simp add: performUpdate_def Let_def split: prod.splits)

lemma build_npmUnderUsr:
  "buildUpdateCommand (detectInstallMethod (npmUnderUsr oc v)) Stable = Some npmInstallLatest"
  by (simp add: detect_npmUnderUsr buildUpdateCommand_def npmInstallLatest_def)

lemma spawn_npmUnderUsr: "spawn (npmUnderUsr oc v) c as = oc"
  by (simp add: npmUnderUsr_def installedWorld_def)

lemma version_npmUnderUsr: "execSync (npmUnderUsr oc v) ''milaidy --version'' = v"
  by (simp add: npmUnderUsr_def installedWorld_def)

lemma matchVersion_banner: "matchVersion (trim (''milaidy/2.1.0 linux-x64'' @ [CHR 0x0A])) = Some ''2.1.0''"
  by code_simp

lemma matchVersion_garbage: "matchVersion (trim ''milaidy: unexpected token'') = None"
  by code_simp

lemma exitedWithCode_1: "exitedWithCode 1 = ''Update command exited with code 1.''"
  by code_simp

text \<open>
  C8. Let \<open>performUpdate\<close> spawn a command that closes with exit code 0. Then the result has
  \<open>success = true\<close> and \<open>error = null\<close>, and \<open>newVersion\<close> is what the pattern for a
  version extracts from the trimmed output of \<open>milaidy --version\<close>: null when that command
  throws and null when the output holds no match, with \<open>success\<close> true all the same.
\<close>

theorem performUpdate_exit_zero:
  assumes cmd: "buildUpdateCommand (detectInstallMethod w) ch = Some cmdInfo"
    and exit0: "spawn w (CommandInfo.command cmdInfo) (args cmdInfo) = Closed (Some 0) chunks"
  shows "success (updateResult (performUpdate w current ch))
         \<and> UpdateResult.error (updateResult (performUpdate w current ch)) = None
         \<and> newVersion (updateResult (performUpdate w current ch)) =
             (case execSync w ''milaidy --version'' of
                Inl e \<Rightarrow> None
              | Inr out \<Rightarrow> matchVersion (trim out))"
  using exit0
  by (simp add: performUpdate_spawned [OF cmd] runCommand_def readPostUpdateVersion_def Let_def)

theorem performUpdate_exit_zero_witness:
  "buildUpdateCommand (detectInstallMethod (npmUnderUsr (Closed (Some 0) []) (Inr ''milaidy: unexpected token'')))
       Stable = Some npmInstallLatest
   \<and> spawn (npmUnderUsr (Closed (Some 0) []) (Inr ''milaidy: unexpected token''))
        (CommandInfo.command npmInstallLatest) (args npmInstallLatest) = Closed (Some 0) []
   \<and> success (updateResult (performUpdate
        (npmUnderUsr (Closed (Some 0) []) (Inr ''milaidy: unexpected token'')) ''2.0.0'' Stable))
   \<and> UpdateResult.error (updateResult (performUpdate
        (npmUnderUsr (Closed (Some 0) []) (Inr ''milaidy: unexpected token'')) ''2.0.0'' Stable)) = None
   \<and> newVersion (updateResult (performUpdate
        (npmUnderUsr (Closed (Some 0) []) (Inr ''milaidy: unexpected token'')) ''2.0.0'' Stable)) = None
   \<and> success (updateResult (performUpdate
        (npmUnderUsr (Closed (Some 0) []) noVersionCommand) ''2.0.0'' Stable))
   \<and> newVersion (updateResult (performUpdate
        (npmUnderUsr (Closed (Some 0) []) noVersionCommand) ''2.0.0'' Stable)) = None
   \<and> success (updateResult (performUpdate
        (npmUnderUsr (Closed (Some 0) []) (Inr (''milaidy/2.1.0 linux-x64'' @ [CHR 0x0A]))) ''2.0.0'' Stable))
   \<and> newVersion (updateResult (performUpdate
        (npmUnderUsr (Closed (Some 0) []) (Inr (''milaidy/2.1.0 linux-x64'' @ [CHR 0x0A]))) ''2.0.0'' Stable))
       = Some ''2.1.0''"
proof -
  let ?ok = "Closed (Some 0) []"
  have sp: "spawn (npmUnderUsr ?ok v) (CommandInfo.command npmInstallLatest) (args npmInstallLatest) = ?ok"
    for v by (rule spawn_npmUnderUsr)
  note a = performUpdate_exit_zero [OF build_npmUnderUsr sp, of "Inr ''milaidy: unexpected token''" "''2.0.0''"]
  note b = performUpdate_exit_zero [OF build_npmUnderUsr sp, of noVersionCommand "''2.0.0''"]
  note c = performUpdate_exit_zero [OF build_npmUnderUsr sp,
      of "Inr (''milaidy/2.1.0 linux-x64'' @ [CHR 0x0A])" "''2.0.0''"]
  from a have a': "newVersion (updateResult (performUpdate
        (npmUnderUsr ?ok (Inr ''milaidy: unexpected token'')) ''2.0.0'' Stable)) = None"
    by (simp add: version_npmUnderUsr matchVersion_garbage)
  from b have b': "newVersion (updateResult (performUpdate
        (npmUnderUsr ?ok noVersionCommand) ''2.0.0'' Stable)) = None"
    by (simp add: version_npmUnderUsr noVersionCommand_def)
  from c have c': "newVersion (updateResult (performUpdate
        (npmUnderUsr ?ok (Inr (''milaidy/2.1.0 linux-x64'' @ [CHR 0x0A]))) ''2.0.0'' Stable))
       = Some ''2.1.0''"
    using matchVersion_banner by (simp add: version_npmUnderUsr)
  from a b c a' b' c' build_npmUnderUsr sp show ?thesis
    by blast
qed

text \<open>
  C9. Let \<open>performUpdate\<close> spawn a command that does not close with exit code 0: it closes
  with another code, closes without a code (counted as 1), or fails to spawn. Then the result
  has \<open>success = false\<close> and \<open>newVersion = null\<close>, and its error is never null: it is the
  captured stderr text (the message of the spawn error, when spawning failed) when that text
  is not empty, and otherwise the sentence that names the exit code. One process was spawned:
  nothing is retried.
\<close>

theorem performUpdate_failure:
  assumes cmd: "buildUpdateCommand (detectInstallMethod w) ch = Some cmdInfo"
    and outcome: "spawn w (CommandInfo.command cmdInfo) (args cmdInfo) = outcome"
    and failed: "\<forall>chunks. outcome \<noteq> Closed (Some 0) chunks"
  shows "performUpdate w current ch =
           \<lparr>updateResult =
              \<lparr>success = False, installMethod = detectInstallMethod w,
               UpdateResult.command =
                 CommandInfo.command cmdInfo @ '' '' @ join '' '' (args cmdInfo),
               previousVersion = current, newVersion = None,
               UpdateResult.error =
                 Some (case outcome of
                         SpawnError message \<Rightarrow>
                           if message \<noteq> [] then message else exitedWithCode 1
                       | Closed code chunks \<Rightarrow>
                           if concat chunks \<noteq> [] then concat chunks
                           else exitedWithCode (case code of None \<Rightarrow> 1 | Some c \<Rightarrow> c))\<rparr>,
            spawnCalls = [(CommandInfo.command cmdInfo, args cmdInfo)]\<rparr>"
  using outcome failed
  by (auto simp: performUpdate_spawned [OF cmd] runCommand_def Let_def
      split: child_outcome.splits option.splits)

theorem performUpdate_failure_witness:
  "buildUpdateCommand (detectInstallMethod (npmUnderUsr (Closed None []) noVersionCommand)) Stable
     = Some npmInstallLatest
   \<and> spawn (npmUnderUsr (Closed None []) noVersionCommand)
        (CommandInfo.command npmInstallLatest) (args npmInstallLatest) = Closed None []
   \<and> (\<forall>chunks. Closed None [] \<noteq> Closed (Some 0) chunks)
   \<and> performUpdate (npmUnderUsr (Closed None []) noVersionCommand) ''2.0.0'' Stable =
       \<lparr>updateResult =
          \<lparr>success = False, installMethod = NpmGlobal,
           UpdateResult.command = ''npm install -g milaidy@latest'',
           previousVersion = ''2.0.0'', newVersion = None,
           UpdateResult.error = Some ''Update command exited with code 1.''\<rparr>,
        spawnCalls = [(''npm'', [''install'', ''-g'', ''milaidy@latest''])]\<rparr>
   \<and> (\<forall>chunks. Closed (Some 127) [''sh: 1: npm: '', ''not found''] \<noteq> Closed (Some 0) chunks)
   \<and> performUpdate (npmUnderUsr (Closed (Some 127) [''sh: 1: npm: '', ''not found'']) noVersionCommand)
        ''2.0.0'' Stable =
       \<lparr>updateResult =
          \<lparr>success = False, installMethod = NpmGlobal,
           UpdateResult.command = ''npm install -g milaidy@latest'',
           previousVersion = ''2.0.0'', newVersion = None,
           UpdateResult.error = Some ''sh: 1: npm: not found''\<rparr>,
        spawnCalls = [(''npm'', [''install'', ''-g'', ''milaidy@latest''])]\<rparr>
   \<and> (\<forall>chunks. SpawnError ''spawn /bin/sh ENOENT'' \<noteq> Closed (Some 0) chunks)
   \<and> performUpdate (npmUnderUsr (SpawnError ''spawn /bin/sh ENOENT'') noVersionCommand)
        ''2.0.0'' Stable =
       \<lparr>updateResult =
          \<lparr>success = False, installMethod = NpmGlobal,
           UpdateResult.command = ''npm install -g milaidy@latest'',
           previousVersion = ''2.0.0'', newVersion = None,
           UpdateResult.error = Some ''spawn /bin/sh ENOENT''\<rparr>,
        spawnCalls = [(''npm'', [''install'', ''-g'', ''milaidy@latest''])]\<rparr>"
proof -
  have sp: "spawn (npmUnderUsr oc noVersionCommand)
              (CommandInfo.command npmInstallLatest) (args npmInstallLatest) = oc"
    for oc by (rule spawn_npmUnderUsr)
  have f1: "\<forall>chunks. Closed None [] \<noteq> Closed (Some 0) chunks"
    by simp
  have f2: "\<forall>chunks. Closed (Some 127) [''sh: 1: npm: '', ''not found''] \<noteq> Closed (Some 0) chunks"
    by simp
  have f3: "\<forall>chunks. SpawnError ''spawn /bin/sh ENOENT'' \<noteq> Closed (Some 0) chunks"
    by simp
  note a = performUpdate_failure [OF build_npmUnderUsr sp f1, of "''2.0.0''"]
  note b = performUpdate_failure [OF build_npmUnderUsr sp f2, of "''2.0.0''"]
  note c = performUpdate_failure [OF build_npmUnderUsr sp f3, of "''2.0.0''"]
  from a have a': "performUpdate (npmUnderUsr (Closed None []) noVersionCommand) ''2.0.0'' Stable =
       \<lparr>updateResult =
          \<lparr>success = False, installMethod = NpmGlobal,
           UpdateResult.command = ''npm install -g milaidy@latest'',
           previousVersion = ''2.0.0'', newVersion = None,
           UpdateResult.error = Some ''Update command exited with code 1.''\<rparr>,
        spawnCalls = [(''npm'', [''install'', ''-g'', ''milaidy@latest''])]\<rparr>"
    by (simp add: detect_npmUnderUsr npmInstallLatest_def exitedWithCode_1)
  from b have b': "performUpdate
        (npmUnderUsr (Closed (Some 127) [''sh: 1: npm: '', ''not found'']) noVersionCommand)
        ''2.0.0'' Stable =
       \<lparr>updateResult =
          \<lparr>success = False, installMethod = NpmGlobal,
           UpdateResult.command = ''npm install -g milaidy@latest'',
           previousVersion = ''2.0.0'', newVersion = None,
           UpdateResult.error = Some ''sh: 1: npm: not found''\<rparr>,
        spawnCalls = [(''npm'', [''install'', ''-g'', ''milaidy@latest''])]\<rparr>"
    by (simp add: detect_npmUnderUsr npmInstallLatest_def)
  from c have c': "performUpdate (npmUnderUsr (SpawnError ''spawn /bin/sh ENOENT'') noVersionCommand)
        ''2.0.0'' Stable =
       \<lparr>updateResult =
          \<lparr>success = False, installMethod = NpmGlobal,
           UpdateResult.command = ''npm install -g milaidy@latest'',
           previousVersion = ''2.0.0'', newVersion = None,
           UpdateResult.error = Some ''spawn /bin/sh ENOENT''\<rparr>,
        spawnCalls = [(''npm'', [''install'', ''-g'', ''milaidy@latest''])]\<rparr>"
    by (simp add: detect_npmUnderUsr npmInstallLatest_def)
  from a' b' c' f1 f2 f3 build_npmUnderUsr sp show ?thesis
    by blast
qed

end
